theory Spec2Isabelle
  imports Complex_Main
begin

section \<open>Numeric values and arrays\<close>

text \<open>
  A numpy float is a finite value, an infinity or NaN. Finite arithmetic is exact here
  (rounding is not modelled) and the two signed zeros are one value. Comparison follows
  IEEE 754: NaN is equal to nothing, itself included.
\<close>

datatype npfloat = Fin real | PInf | NInf | NaN

fun np_isnan :: "npfloat \<Rightarrow> bool" where
  "np_isnan NaN = True"
| "np_isnan _ = False"

fun np_eq :: "npfloat \<Rightarrow> npfloat \<Rightarrow> bool" where
  "np_eq (Fin a) (Fin b) = (a = b)"
| "np_eq PInf PInf = True"
| "np_eq NInf NInf = True"
| "np_eq _ _ = False"

fun np_negative :: "npfloat \<Rightarrow> bool" where
  "np_negative (Fin a) = (a < 0)"
| "np_negative NInf = True"
| "np_negative _ = False"

fun np_neg :: "npfloat \<Rightarrow> npfloat" where
  "np_neg (Fin a) = Fin (- a)"
| "np_neg PInf = NInf"
| "np_neg NInf = PInf"
| "np_neg NaN = NaN"

fun np_add :: "npfloat \<Rightarrow> npfloat \<Rightarrow> npfloat" where
  "np_add (Fin a) (Fin b) = Fin (a + b)"
| "np_add NaN _ = NaN"
| "np_add _ NaN = NaN"
| "np_add PInf NInf = NaN"
| "np_add NInf PInf = NaN"
| "np_add PInf _ = PInf"
| "np_add _ PInf = PInf"
| "np_add NInf _ = NInf"
| "np_add _ NInf = NInf"

definition np_sub :: "npfloat \<Rightarrow> npfloat \<Rightarrow> npfloat" where
  "np_sub a b = np_add a (np_neg b)"

fun np_mul :: "npfloat \<Rightarrow> npfloat \<Rightarrow> npfloat" where
  "np_mul (Fin a) (Fin b) = Fin (a * b)"
| "np_mul NaN _ = NaN"
| "np_mul _ NaN = NaN"
| "np_mul x y =
     (if np_eq x (Fin 0) \<or> np_eq y (Fin 0) then NaN
      else if np_negative x = np_negative y then PInf else NInf)"

text \<open>
  True division of numpy scalars and arrays never raises: a zero divisor gives NaN for a
  zero dividend and an infinity otherwise.
\<close>

fun np_div :: "npfloat \<Rightarrow> npfloat \<Rightarrow> npfloat" where
  "np_div (Fin a) (Fin b) =
     (if b = 0 then (if a = 0 then NaN else if a < 0 then NInf else PInf)
      else Fin (a / b))"
| "np_div NaN _ = NaN"
| "np_div _ NaN = NaN"
| "np_div (Fin a) _ = Fin 0"
| "np_div x (Fin b) = (if np_negative x = (b < 0) then PInf else NInf)"
| "np_div _ _ = NaN"

definition np_sum :: "npfloat list \<Rightarrow> npfloat" where
  "np_sum xs = foldr np_add xs (Fin 0)"

definition np_any :: "bool list \<Rightarrow> bool" where
  "np_any bs = list_ex (\<lambda>b. b) bs"

text \<open>\<open>a[mask] = v\<close>: boolean-mask assignment of a scalar.\<close>

definition put_mask :: "npfloat list \<Rightarrow> bool list \<Rightarrow> npfloat \<Rightarrow> npfloat list" where
  "put_mask a msk v = map2 (\<lambda>x b. if b then v else x) a msk"

text \<open>
  Arrays are objects: a store holds the one-dimensional float arrays that are alive, an
  array is named by its position in the store, and a new array is allocated at the end.
\<close>

type_synonym addr = nat
type_synonym store = "npfloat list list"

datatype reason =
    NoNeighbors "nat list"
  | BadColumns
  | NegativeOrder
  | NotUnivariate
  | WeightCount
  | BadNames
  | BadShape

datatype error = ValueError reason | IndexError | AttributeError | TypeError | NotFittedError

section \<open>Neighbor estimators\<close>

subsection \<open>Weights and averages\<close>

text \<open>
  The \<open>weights\<close> policy. A callable receives the array \<open>distance\<close> and returns an
  array, a new one or the one it was given, possibly after writing into arrays: it is a
  function of the store and the address of \<open>distance\<close> that gives the address of its
  result and the store it leaves.
\<close>

datatype weights_type = Uniform | Distance | Custom "store \<Rightarrow> addr \<Rightarrow> addr \<times> store"

text \<open>
  \<open>_distance_weights\<close>: in the branch with a zero distance, \<open>weights\<close> is another name
  of the array \<open>distance\<close>, and both mask assignments write into it; otherwise
  \<open>1 / distance\<close> allocates a new array.
\<close>

definition distance_weights :: "store \<Rightarrow> addr \<Rightarrow> addr \<times> store" where
  "distance_weights h distance =
     (let idx = map (\<lambda>x. np_eq x (Fin 0)) (h ! distance) in
      if np_any idx then
        (let weights = distance;
             h1 = h[weights := put_mask (h ! weights) idx (Fin 1)];
             h2 = h1[weights := put_mask (h1 ! weights) (map Not idx) (Fin 0)]
         in (weights, h2))
      else (length h, h @ [map (np_div (Fin 1)) (h ! distance)]))"

text \<open>The statement \<open>weights /= np.sum(weights)\<close> of \<open>_average\<close>, in place.\<close>

definition normalize_inplace :: "store \<Rightarrow> addr \<Rightarrow> store" where
  "normalize_inplace h weights =
     h[weights := map (\<lambda>x. np_div x (np_sum (h ! weights))) (h ! weights)]"

text \<open>
  \<open>_average\<close>. The neighbours' responses \<open>X\<close> are functional data, a list of samples.
  \<open>np.mean(X, axis=0)\<close> and \<open>np.sum(X * weights, axis=0)\<close> are computed by the functional
  data class, which is not part of these files: they are the parameters \<open>fmean\<close> and
  \<open>fwsum\<close>.
\<close>

definition average ::
  "('s list \<Rightarrow> 's list) \<Rightarrow> ('s list \<Rightarrow> npfloat list \<Rightarrow> 's list) \<Rightarrow>
     store \<Rightarrow> 's list \<Rightarrow> addr option \<Rightarrow> 's list \<times> store" where
  "average fmean fwsum h X weights =
     (case weights of
        None \<Rightarrow> (fmean X, h)
      | Some w \<Rightarrow> (let h' = normalize_inplace h w in (fwsum X (h' ! w), h')))"

text \<open>
  \<open>_prediction_from_neighbors\<close>. Whatever array the weights are, \<open>_average\<close>
  normalises it in place.
\<close>

definition prediction_from_neighbors ::
  "weights_type \<Rightarrow> ('s list \<Rightarrow> 's list) \<Rightarrow> ('s list \<Rightarrow> npfloat list \<Rightarrow> 's list) \<Rightarrow>
     store \<Rightarrow> 's list \<Rightarrow> addr \<Rightarrow> 's list \<times> store" where
  "prediction_from_neighbors wt fmean fwsum h neighbors distance =
     (case wt of
        Uniform \<Rightarrow> average fmean fwsum h neighbors None
      | Distance \<Rightarrow>
          (let (weights, h') = distance_weights h distance
           in average fmean fwsum h' neighbors (Some weights))
      | Custom f \<Rightarrow>
          (let (weights, h') = f h distance
           in average fmean fwsum h' neighbors (Some weights)))"

subsection \<open>Functional regression: prediction\<close>

text \<open>
  Functional responses are a list of samples, one function each; indexing with an index
  array selects samples and \<open>concatenate\<close> stacks them. The fields are the attributes
  the prediction reads: \<open>weights\<close>, the optional \<open>outlier_response\<close> and the responses
  \<open>_y\<close> stored by the fit.
\<close>

record 's regressor =
  weights :: weights_type
  outlier_response_attr :: "'s list option"
  y_attr :: "'s list"

text \<open>\<open>self._y[idx]\<close>: an index outside the stored responses raises.\<close>

definition getitem :: "'s list \<Rightarrow> nat list \<Rightarrow> error + 's list" where
  "getitem y idx =
     (if list_all (\<lambda>i. i < length y) idx then Inr (map (\<lambda>i. y ! i) idx) else Inl IndexError)"

definition getrow :: "'a list \<Rightarrow> nat \<Rightarrow> error + 'a" where
  "getrow xs i = (if i < length xs then Inr (xs ! i) else Inl IndexError)"

text \<open>\<open>_outlier_response\<close>: the error names every sample with no neighbour.\<close>

definition outlier_response :: "'s regressor \<Rightarrow> nat list list \<Rightarrow> error + 's list" where
  "outlier_response self neighbors =
     (case outlier_response_attr self of
        None \<Rightarrow>
          Inl (ValueError (NoNeighbors
            (filter (\<lambda>i. length (neighbors ! i) = 0) [0..<length neighbors])))
      | Some r \<Rightarrow> Inr r)"

text \<open>
  The branch that \<open>_functional_predict\<close> takes for one sample, written once: \<open>idx\<close> is the
  sample's neighbour index array and \<open>i\<close> its position in \<open>distances\<close>. Each row of
  \<open>distances\<close> is an array of its own, so the weights are computed in a store that
  holds just that row.
\<close>

definition predict_sample ::
  "'s regressor \<Rightarrow> ('s list \<Rightarrow> 's list) \<Rightarrow> ('s list \<Rightarrow> npfloat list \<Rightarrow> 's list) \<Rightarrow>
     nat list list \<Rightarrow> npfloat list list \<Rightarrow> nat \<Rightarrow> nat list \<Rightarrow> error + 's list" where
  "predict_sample self fmean fwsum neighbors distances i idx =
     (if length idx = 0 then outlier_response self neighbors
      else
        (case getitem (y_attr self) idx of
           Inl e \<Rightarrow> Inl e
         | Inr nb \<Rightarrow>
             (case getrow distances i of
                Inl e \<Rightarrow> Inl e
              | Inr d \<Rightarrow>
                  Inr (fst (prediction_from_neighbors (weights self) fmean fwsum [d] nb 0)))))"

text \<open>The loop \<open>for i, idx in enumerate(neighbors[1:])\<close>, with the prediction so far.\<close>

fun predict_loop ::
  "'s regressor \<Rightarrow> ('s list \<Rightarrow> 's list) \<Rightarrow> ('s list \<Rightarrow> npfloat list \<Rightarrow> 's list) \<Rightarrow>
     nat list list \<Rightarrow> npfloat list list \<Rightarrow> nat \<Rightarrow> nat list list \<Rightarrow> 's list \<Rightarrow>
     error + 's list" where
  "predict_loop self fmean fwsum neighbors distances i [] pred = Inr pred"
| "predict_loop self fmean fwsum neighbors distances i (idx # rest) pred =
     (case predict_sample self fmean fwsum neighbors distances (i + 1) idx of
        Inl e \<Rightarrow> Inl e
      | Inr new_pred \<Rightarrow>
          predict_loop self fmean fwsum neighbors distances (i + 1) rest (pred @ new_pred))"

text \<open>
  \<open>_functional_predict\<close>, from the result \<open>(distances, neighbors)\<close> of the neighbour
  query. \<open>neighbors[0]\<close> raises when there is no test sample.
\<close>

definition functional_predict ::
  "'s regressor \<Rightarrow> ('s list \<Rightarrow> 's list) \<Rightarrow> ('s list \<Rightarrow> npfloat list \<Rightarrow> 's list) \<Rightarrow>
     npfloat list list \<Rightarrow> nat list list \<Rightarrow> error + 's list" where
  "functional_predict self fmean fwsum distances neighbors =
     (case neighbors of
        [] \<Rightarrow> Inl IndexError
      | idx0 # rest \<Rightarrow>
          (case predict_sample self fmean fwsum neighbors distances 0 idx0 of
             Inl e \<Rightarrow> Inl e
           | Inr pred \<Rightarrow> predict_loop self fmean fwsum neighbors distances 0 rest pred))"

subsection \<open>Fitting and classification\<close>

text \<open>
  Discretised functional data (\<open>FDataGrid\<close>, an external collaborator): the grid points of
  each domain axis, and the data matrix by its shape after the sample axis
  (\<open>data_matrix.shape[1:]\<close>) and its rows, one flattened row of values per sample
  (\<open>data_matrix.reshape(n_samples, -1)\<close>).
\<close>

record fdatagrid =
  grid_points :: "real list list"
  shape_tail :: "nat list"
  data_rows :: "npfloat list list"

text \<open>What a caller passes as \<open>X\<close>: functional data, or a plain matrix (of distances, when
  the metric is the \<open>precomputed\<close> tag).\<close>

datatype input = FGrid fdatagrid | NDArray "npfloat list list"

text \<open>A functional metric gives the distance of two one-sample functional data. The
  \<open>metric\<close> parameter is one of the two tags or such a function.\<close>

type_synonym fmetric = "fdatagrid \<Rightarrow> fdatagrid \<Rightarrow> npfloat"

datatype metric = Precomputed | L2 | Callable fmetric

text \<open>The metric the external index is constructed with: the estimator's own \<open>metric\<close>
  value (a tag, or the metric object taken as vector-compatible), or the vector metric
  built by \<open>_to_multivariate_metric\<close>.\<close>

datatype sk_metric =
    SkGiven metric
  | SkVector "npfloat list \<Rightarrow> npfloat list \<Rightarrow> error + npfloat"

text \<open>The external index after its \<open>fit\<close>: the metric it was constructed with and the
  arguments of \<open>fit\<close>.\<close>

record 't estimator =
  sk_metric :: sk_metric
  sk_fit_X :: input
  sk_fit_y :: "'t option"

record 't neighbors_base =
  metric :: metric
  precompute_metric :: bool
  multivariate_metric :: bool
  estimator_attr :: "'t estimator option"
  grid_points_attr :: "real list list option"
  shape_attr :: "nat list option"
  fit_X_attr :: "fdatagrid option"

definition to_multivariate :: "fdatagrid \<Rightarrow> npfloat list list" where
  "to_multivariate fdatagrid = data_rows fdatagrid"

text \<open>\<open>_from_multivariate\<close> with the shape \<open>(1, len(axis) ..., -1)\<close> of
  \<open>_to_multivariate_metric\<close>: the reshape fails when the vector does not fill the grid a
  whole number of times.\<close>

definition from_multivariate :: "npfloat list \<Rightarrow> real list list \<Rightarrow> error + fdatagrid" where
  "from_multivariate x gp =
     (let p = prod_list (map length gp) in
      if p = 0 \<or> length x mod p \<noteq> 0 then Inl (ValueError BadShape)
      else Inr \<lparr>grid_points = gp, shape_tail = map length gp @ [length x div p],
                data_rows = [x]\<rparr>)"

definition to_multivariate_metric ::
  "fmetric \<Rightarrow> real list list \<Rightarrow> npfloat list \<Rightarrow> npfloat list \<Rightarrow> error + npfloat" where
  "to_multivariate_metric m gp x y =
     (case from_multivariate x gp of
        Inl e \<Rightarrow> Inl e
      | Inr fx \<Rightarrow>
          (case from_multivariate y gp of
             Inl e \<Rightarrow> Inl e
           | Inr fy \<Rightarrow> Inr (m fx fy)))"

text \<open>\<open>_transform_to_multivariate\<close>. A plain matrix has no \<open>data_matrix\<close> attribute.\<close>

definition transform_to_multivariate :: "metric \<Rightarrow> input option \<Rightarrow> error + input option" where
  "transform_to_multivariate m X =
     (case X of
        None \<Rightarrow> Inr None
      | Some x \<Rightarrow>
          (case m of
             Precomputed \<Rightarrow> Inr (Some x)
           | _ \<Rightarrow>
               (case x of
                  FGrid g \<Rightarrow> Inr (Some (NDArray (to_multivariate g)))
                | NDArray _ \<Rightarrow> Inl AttributeError)))"

text \<open>
  Modelled from the spec: \<open>_fit_metric\<close> is not part of these files. The spec: "fit the
  metric (if it exposes a fit step) against the raw functional data". A metric object is
  fitted in place, so the metric is the fitted one from then on; the fit step of metric
  objects is the parameter \<open>fit_step\<close>, and a tag has none.
\<close>

definition fit_metric :: "(fmetric \<Rightarrow> fdatagrid \<Rightarrow> fmetric) \<Rightarrow> metric \<Rightarrow> fdatagrid \<Rightarrow> metric" where
  "fit_metric fit_step m X = (case m of Callable f \<Rightarrow> Callable (fit_step f X) | _ \<Rightarrow> m)"

text \<open>\<open>l2_distance if self.metric == "l2" else self.metric\<close>, as the function that is
  called: the tag \<open>precomputed\<close> is a string and cannot be called.\<close>

definition resolve_metric :: "fmetric \<Rightarrow> metric \<Rightarrow> error + fmetric" where
  "resolve_metric l2_distance m =
     (case m of L2 \<Rightarrow> Inr l2_distance | Callable f \<Rightarrow> Inr f | Precomputed \<Rightarrow> Inl TypeError)"

definition zeros :: "nat \<Rightarrow> nat \<Rightarrow> npfloat list list" where
  "zeros n m = replicate n (replicate m (Fin 0))"

text \<open>\<open>NeighborsBase.fit\<close>. \<open>_init_estimator\<close> constructs the external index with the
  metric it is given. The function \<open>l2_distance\<close> has no fit step, so fitting the metric
  changes a metric object only.\<close>

definition fit ::
  "(fmetric \<Rightarrow> fdatagrid \<Rightarrow> fmetric) \<Rightarrow> fmetric \<Rightarrow> 't neighbors_base \<Rightarrow> input \<Rightarrow> 't option \<Rightarrow>
     error + 't neighbors_base" where
  "fit fit_step l2_distance self X y =
     (case metric self of
        Precomputed \<Rightarrow>
          Inr (self\<lparr>estimator_attr :=
                 Some \<lparr>sk_metric = SkGiven (metric self), sk_fit_X = X, sk_fit_y = y\<rparr>\<rparr>)
      | _ \<Rightarrow>
          (case X of
             NDArray _ \<Rightarrow> Inl AttributeError
           | FGrid g \<Rightarrow>
               (let self1 = self\<lparr>grid_points_attr := Some (grid_points g),
                                  shape_attr := Some (shape_tail g)\<rparr>
                in
                if multivariate_metric self1 then
                  (let self2 = self1\<lparr>metric := fit_metric fit_step (metric self1) g\<rparr>
                   in Inr (self2\<lparr>estimator_attr :=
                         Some \<lparr>sk_metric = SkGiven (metric self2),
                               sk_fit_X = NDArray (to_multivariate g), sk_fit_y = y\<rparr>\<rparr>))
                else if precompute_metric self1 then
                  (let self2 = self1\<lparr>metric := fit_metric fit_step (metric self1) g,
                                      fit_X_attr := Some g\<rparr>
                   in Inr (self2\<lparr>estimator_attr :=
                         Some \<lparr>sk_metric = SkGiven Precomputed,
                               sk_fit_X = NDArray (zeros (length (data_rows g))
                                                         (length (data_rows g))),
                               sk_fit_y = y\<rparr>\<rparr>))
                else
                  (let self2 = self1\<lparr>metric := fit_metric fit_step (metric self1) g\<rparr>
                   in case resolve_metric l2_distance (metric self2) of
                        Inl e \<Rightarrow> Inl e
                      | Inr m \<Rightarrow>
                          Inr (self2\<lparr>estimator_attr :=
                            Some \<lparr>sk_metric = SkVector (to_multivariate_metric m (grid_points g)),
                                  sk_fit_X = NDArray (to_multivariate g), sk_fit_y = y\<rparr>\<rparr>)))))"

text \<open>
  Modelled from the spec: \<open>PairwiseMetric\<close> is not part of these files. The spec:
  classification predict "computes the pairwise distance from query to training set
  directly": the matrix of the distances of each query sample to each training sample.
\<close>

definition single_sample :: "fdatagrid \<Rightarrow> npfloat list \<Rightarrow> fdatagrid" where
  "single_sample g row = g\<lparr>data_rows := [row]\<rparr>"

definition pairwise_metric :: "fmetric \<Rightarrow> fdatagrid \<Rightarrow> fdatagrid \<Rightarrow> npfloat list list" where
  "pairwise_metric m X Y =
     map (\<lambda>x. map (\<lambda>y. m (single_sample X x) (single_sample Y y)) (data_rows Y)) (data_rows X)"

text \<open>\<open>NeighborsClassifierMixin.predict\<close>; the index's own \<open>predict\<close> is the parameter
  \<open>sk_predict\<close>. In the \<open>precompute_metric\<close> branch the attribute \<open>_fit_X\<close> is read
  before the metric is called, and the query is functional data.\<close>

definition predict ::
  "fmetric \<Rightarrow> ('t estimator \<Rightarrow> input option \<Rightarrow> 'p) \<Rightarrow> 't neighbors_base \<Rightarrow> input \<Rightarrow> error + 'p" where
  "predict l2_distance sk_predict self X =
     (case estimator_attr self of
        None \<Rightarrow> Inl NotFittedError
      | Some est \<Rightarrow>
          if precompute_metric self then
            (case fit_X_attr self of
               None \<Rightarrow> Inl AttributeError
             | Some fit_X \<Rightarrow>
                 (case resolve_metric l2_distance (metric self) of
                    Inl e \<Rightarrow> Inl e
                  | Inr m \<Rightarrow>
                      (case X of
                         NDArray _ \<Rightarrow> Inl TypeError
                       | FGrid q \<Rightarrow>
                           Inr (sk_predict est (Some (NDArray (pairwise_metric m q fit_X)))))))
          else
            (case transform_to_multivariate (metric self) (Some X) of
               Inl e \<Rightarrow> Inl e
             | Inr X' \<Rightarrow> Inr (sk_predict est X')))"

subsection \<open>Functional score\<close>

text \<open>
  The operations of the functional data class that the score uses, for functional data of
  some type \<open>'f\<close> (discretised or in a basis); the class is not part of these files. For
  discretised data \<open>fd_data_matrix\<close> is \<open>data_matrix[..., 0]\<close>, one row per sample, and
  \<open>fd_grid_points\<close> is \<open>grid_points[0]\<close>.
\<close>

record 'f fdata_ops =
  fd_dim_domain :: "'f \<Rightarrow> nat"
  fd_dim_codomain :: "'f \<Rightarrow> nat"
  fd_len :: "'f \<Rightarrow> nat"
  fd_sub :: "'f \<Rightarrow> 'f \<Rightarrow> 'f"
  fd_mean :: "'f \<Rightarrow> 'f"
  fd_is_grid :: "'f \<Rightarrow> bool"
  fd_to_grid :: "'f \<Rightarrow> 'f"
  fd_data_matrix :: "'f \<Rightarrow> npfloat list list"
  fd_grid_points :: "'f \<Rightarrow> real list"

text \<open>\<open>np.sum(data, axis=0)\<close> of a matrix with \<open>m\<close> columns.\<close>

definition sum_axis0 :: "nat \<Rightarrow> npfloat list list \<Rightarrow> npfloat list" where
  "sum_axis0 m data = foldr (map2 np_add) data (replicate m (Fin 0))"

text \<open>What the score does to the residuals and to the deviations alike: square in place,
  scale row \<open>i\<close> by the weight of sample \<open>i\<close> when there are weights, sum over the
  samples.\<close>

definition squared_sum :: "nat \<Rightarrow> npfloat list list \<Rightarrow> npfloat list option \<Rightarrow> npfloat list" where
  "squared_sum m data sample_weight =
     (let squares = map (map (\<lambda>x. np_mul x x)) data in
      sum_axis0 m
        (case sample_weight of
           None \<Rightarrow> squares
         | Some w \<Rightarrow> map2 (\<lambda>row wi. map (\<lambda>x. np_mul x wi) row) squares w))"

text \<open>\<open>_functional_score\<close>. The quadrature \<open>simps\<close> is scipy's and a parameter, as is the
  estimator's \<open>predict\<close>.\<close>

definition functional_score ::
  "'f fdata_ops \<Rightarrow> (npfloat list \<Rightarrow> real list \<Rightarrow> npfloat) \<Rightarrow> ('x \<Rightarrow> error + 'f) \<Rightarrow>
     'x \<Rightarrow> 'f \<Rightarrow> npfloat list option \<Rightarrow> error + npfloat" where
  "functional_score ops simps predict_fn X y sample_weight =
     (if fd_dim_codomain ops y \<noteq> 1 \<or> fd_dim_domain ops y \<noteq> 1
      then Inl (ValueError NotUnivariate)
      else
        (case predict_fn X of
           Inl e \<Rightarrow> Inl e
         | Inr pred \<Rightarrow>
             (let u0 = fd_sub ops y pred;
                  v0 = fd_sub ops y (fd_mean ops y);
                  u = (if fd_is_grid ops u0 then u0 else fd_to_grid ops u0);
                  v = (if fd_is_grid ops u0 then v0 else fd_to_grid ops v0)
              in
              if (case sample_weight of None \<Rightarrow> False | Some w \<Rightarrow> length w \<noteq> fd_len ops y)
              then Inl (ValueError WeightCount)
              else
                (let w = map_option (\<lambda>w. map (\<lambda>x. np_div x (np_sum w)) w) sample_weight;
                     sum_u = squared_sum (length (fd_grid_points ops u)) (fd_data_matrix ops u) w;
                     sum_v = squared_sum (length (fd_grid_points ops v)) (fd_data_matrix ops v) w;
                     int_u = simps sum_u (fd_grid_points ops u);
                     int_v = simps sum_v (fd_grid_points ops v)
                 in Inr (np_sub (Fin 1) (np_div int_u int_v))))))"

text \<open>
  For the examples: discretised data with one domain and one codomain dimension, where
  subtraction is pointwise (a one-sample right operand is used for every sample) and the
  mean is the pointwise mean of the samples; and the composite Simpson rule on an odd
  number of equally spaced points.
\<close>

definition grid_ops :: "fdatagrid fdata_ops" where
  "grid_ops =
     \<lparr>fd_dim_domain = (\<lambda>g. length (grid_points g)),
      fd_dim_codomain = (\<lambda>g. last (shape_tail g)),
      fd_len = (\<lambda>g. length (data_rows g)),
      fd_sub = (\<lambda>a b. a\<lparr>data_rows :=
         map2 (map2 np_sub) (data_rows a)
           (if length (data_rows b) = 1 then replicate (length (data_rows a)) (hd (data_rows b))
            else data_rows b)\<rparr>),
      fd_mean = (\<lambda>a. a\<lparr>data_rows :=
         [map (\<lambda>s. np_div s (Fin (real (length (data_rows a)))))
            (sum_axis0 (length (hd (grid_points a))) (data_rows a))]\<rparr>),
      fd_is_grid = (\<lambda>g. True),
      fd_to_grid = (\<lambda>g. g),
      fd_data_matrix = data_rows,
      fd_grid_points = (\<lambda>g. hd (grid_points g))\<rparr>"

fun simpson :: "npfloat list \<Rightarrow> real list \<Rightarrow> npfloat" where
  "simpson (y0 # y1 # y2 # ys) (x0 # x1 # x2 # xs) =
     np_add (np_mul (Fin ((x2 - x0) / 6)) (np_add y0 (np_add (np_mul (Fin 4) y1) y2)))
       (simpson (y2 # ys) (x2 # xs))"
| "simpson _ _ = Fin 0"

section \<open>Basis representation of functional data\<close>

subsection \<open>Arrays and bases\<close>

text \<open>
  A two-dimensional float array: its rows, and the number of columns (the shape is kept
  with the data, as an array with no row still has a column count). Array-likes given
  to a constructor are a number, a vector or a matrix; \<open>np.atleast_2d\<close> promotes the
  first two to a one-row matrix.
\<close>

record ndarray =
  ncols :: nat
  rows :: "npfloat list list"

datatype array_like = Scalar npfloat | Vector "npfloat list" | Matrix ndarray

fun atleast_2d :: "array_like \<Rightarrow> ndarray" where
  "atleast_2d (Scalar x) = \<lparr>ncols = 1, rows = [[x]]\<rparr>"
| "atleast_2d (Vector v) = \<lparr>ncols = length v, rows = [v]\<rparr>"
| "atleast_2d (Matrix a) = a"

text \<open>
  \<open>_int_to_real\<close> is not part of these files. It changes the element type of an integer
  array; numbers have one type here, so it is the identity.
\<close>

definition int_to_real :: "ndarray \<Rightarrow> ndarray" where
  "int_to_real a = a"

text \<open>\<open>np.array_equal\<close>: equal shapes and elementwise equality, under which NaN differs
  from NaN.\<close>

definition array_equal :: "ndarray \<Rightarrow> ndarray \<Rightarrow> bool" where
  "array_equal a b =
     (length (rows a) = length (rows b) \<and> ncols a = ncols b
      \<and> list_all2 (list_all2 np_eq) (rows a) (rows b))"

text \<open>
  The basis system is an external collaborator: what this class reads of it is its
  number of basis functions, its dimensions and its domain; bases are compared by value,
  and a deep copy of a basis is an equal basis.
\<close>

record basis =
  family :: string
  n_basis :: nat
  dim_domain :: nat
  dim_codomain :: nat
  domain_range :: "(real \<times> real) list"

subsection \<open>Construction and copy\<close>

record fdatabasis =
  basis :: basis
  coefficients :: ndarray
  extrapolation :: "string option"
  dataset_name :: "string option"
  argument_names :: "string list option"
  coordinate_names :: "string list option"
  sample_names :: "string list option"

text \<open>The keyword arguments of the constructor and of \<open>copy\<close>; \<open>None\<close> when not given.
  (The deprecated aliases \<open>dataset_label\<close> and \<open>axes_labels\<close> are left out.)\<close>

record kwargs =
  kw_extrapolation :: "string option"
  kw_dataset_name :: "string option"
  kw_argument_names :: "string list option"
  kw_coordinate_names :: "string list option"
  kw_sample_names :: "string list option"

definition no_kwargs :: kwargs where
  "no_kwargs = \<lparr>kw_extrapolation = None, kw_dataset_name = None, kw_argument_names = None,
     kw_coordinate_names = None, kw_sample_names = None\<rparr>"

definition names_ok :: "string list option \<Rightarrow> nat \<Rightarrow> bool" where
  "names_ok names n = (case names of None \<Rightarrow> True | Some ns \<Rightarrow> length ns = n)"

text \<open>
  Modelled from the spec: the constructor of the base class \<open>FData\<close>, which
  \<open>FDataBasis.__init__\<close> calls last, is not part of these files. The spec's data model
  has \<open>sample_names\<close>, \<open>argument_names\<close> and \<open>coordinate_names\<close> as optional sequences
  whose lengths must match the number of samples, the domain dimension and the codomain
  dimension when present; the metadata is stored as given.
\<close>

definition FData_init :: "fdatabasis \<Rightarrow> kwargs \<Rightarrow> error + fdatabasis" where
  "FData_init self kw =
     (if names_ok (kw_sample_names kw) (length (rows (coefficients self)))
         \<and> names_ok (kw_argument_names kw) (dim_domain (basis self))
         \<and> names_ok (kw_coordinate_names kw) (dim_codomain (basis self))
      then Inr (self\<lparr>extrapolation := kw_extrapolation kw,
                      dataset_name := kw_dataset_name kw,
                      argument_names := kw_argument_names kw,
                      coordinate_names := kw_coordinate_names kw,
                      sample_names := kw_sample_names kw\<rparr>)
      else Inl (ValueError BadNames))"

text \<open>\<open>FDataBasis.__init__\<close>.\<close>

definition FDataBasis_init :: "basis \<Rightarrow> array_like \<Rightarrow> kwargs \<Rightarrow> error + fdatabasis" where
  "FDataBasis_init b coefs kw =
     (let c = int_to_real (atleast_2d coefs) in
      if ncols c \<noteq> n_basis b then Inl (ValueError BadColumns)
      else FData_init
             \<lparr>basis = b, coefficients = c, extrapolation = None, dataset_name = None,
              argument_names = None, coordinate_names = None, sample_names = None\<rparr> kw)"

definition n_samples :: "fdatabasis \<Rightarrow> nat" where
  "n_samples self = length (rows (coefficients self))"

text \<open>\<open>copy\<close>: every argument that is \<open>None\<close> is taken from the instance.\<close>

definition or_self :: "'a option \<Rightarrow> 'a option \<Rightarrow> 'a option" where
  "or_self given own = (case given of None \<Rightarrow> own | Some v \<Rightarrow> Some v)"

definition copy ::
  "fdatabasis \<Rightarrow> basis option \<Rightarrow> array_like option \<Rightarrow> kwargs \<Rightarrow> error + fdatabasis" where
  "copy self b coefs kw =
     FDataBasis_init
       (case b of None \<Rightarrow> basis self | Some b' \<Rightarrow> b')
       (case coefs of None \<Rightarrow> Matrix (coefficients self) | Some c \<Rightarrow> c)
       \<lparr>kw_extrapolation = or_self (kw_extrapolation kw) (extrapolation self),
        kw_dataset_name = or_self (kw_dataset_name kw) (dataset_name self),
        kw_argument_names = or_self (kw_argument_names kw) (argument_names self),
        kw_coordinate_names = or_self (kw_coordinate_names kw) (coordinate_names self),
        kw_sample_names = or_self (kw_sample_names kw) (sample_names self)\<rparr>"

text \<open>
  The class invariant: what a constructor call that succeeded has checked.
\<close>

definition is_instance :: "fdatabasis \<Rightarrow> bool" where
  "is_instance self =
     (ncols (coefficients self) = n_basis (basis self)
      \<and> names_ok (sample_names self) (n_samples self)
      \<and> names_ok (argument_names self) (dim_domain (basis self))
      \<and> names_ok (coordinate_names self) (dim_codomain (basis self)))"

subsection \<open>Derivative, conversion, equality, missing values\<close>





text \<open>
  \<open>to_basis\<close>. With another basis the method calls \<open>self.to_grid(eval_points=...)\<close>;
  \<open>to_grid\<close> has no parameter of that name (its parameter is \<open>sample_points\<close>), so the
  call raises a type error before anything is evaluated.
\<close>

definition to_basis :: "fdatabasis \<Rightarrow> basis \<Rightarrow> error + fdatabasis" where
  "to_basis self b = (if b = basis self then copy self None None no_kwargs else Inl TypeError)"

text \<open>
  \<open>equals\<close>. The comparison inherited from \<open>FData\<close> is not part of these files and is
  the parameter \<open>super_equals\<close>.
\<close>

definition equals ::
  "(fdatabasis \<Rightarrow> fdatabasis \<Rightarrow> bool) \<Rightarrow> fdatabasis \<Rightarrow> fdatabasis \<Rightarrow> bool" where
  "equals super_equals self other =
     (super_equals self other \<and> basis self = basis other
      \<and> array_equal (coefficients self) (coefficients other))"

text \<open>\<open>isna\<close>: \<open>np.all(np.isnan(self.coefficients), axis=1)\<close>.\<close>

definition isna :: "fdatabasis \<Rightarrow> bool list" where
  "isna self = map (list_all np_isnan) (rows (coefficients self))"

subsection \<open>Addition and subtraction\<close>

text \<open>
  The right operand is another basis representation or some other value. A binary
  operator method returns a value, returns the \<open>NotImplemented\<close> sentinel or raises.
  The combination rules of the basis and \<open>_copy_op\<close> of the base class are parameters; a
  constant rule may raise, and the methods turn its type error into the sentinel.
\<close>

datatype 'c operand = FDB fdatabasis | Other 'c

datatype op_result = NotImplemented | Raised error | Returned fdatabasis

record 'c basis_rules =
  add_same_basis :: "basis \<Rightarrow> ndarray \<Rightarrow> ndarray \<Rightarrow> basis \<times> array_like"
  add_constant :: "basis \<Rightarrow> ndarray \<Rightarrow> 'c \<Rightarrow> error + basis \<times> array_like"
  sub_same_basis :: "basis \<Rightarrow> ndarray \<Rightarrow> ndarray \<Rightarrow> basis \<times> array_like"
  sub_constant :: "basis \<Rightarrow> ndarray \<Rightarrow> 'c \<Rightarrow> error + basis \<times> array_like"
  copy_op :: "fdatabasis \<Rightarrow> 'c operand \<Rightarrow> basis \<Rightarrow> array_like \<Rightarrow> error + fdatabasis"

definition returned :: "error + fdatabasis \<Rightarrow> op_result" where
  "returned r = (case r of Inl e \<Rightarrow> Raised e | Inr v \<Rightarrow> Returned v)"

definition add :: "'c basis_rules \<Rightarrow> fdatabasis \<Rightarrow> 'c operand \<Rightarrow> op_result" where
  "add R self other =
     (case other of
        FDB rhs \<Rightarrow>
          if basis self \<noteq> basis rhs then NotImplemented
          else (let (b, coefs) = add_same_basis R (basis self) (coefficients self) (coefficients rhs)
                in returned (copy_op R self other b coefs))
      | Other k \<Rightarrow>
          (case add_constant R (basis self) (coefficients self) k of
             Inl TypeError \<Rightarrow> NotImplemented
           | Inl e \<Rightarrow> Raised e
           | Inr (b, coefs) \<Rightarrow> returned (copy_op R self other b coefs)))"

definition sub :: "'c basis_rules \<Rightarrow> fdatabasis \<Rightarrow> 'c operand \<Rightarrow> op_result" where
  "sub R self other =
     (case other of
        FDB rhs \<Rightarrow>
          if basis self \<noteq> basis rhs then NotImplemented
          else (let (b, coefs) = sub_same_basis R (basis self) (coefficients self) (coefficients rhs)
                in returned (copy_op R self other b coefs))
      | Other k \<Rightarrow>
          (case sub_constant R (basis self) (coefficients self) k of
             Inl TypeError \<Rightarrow> NotImplemented
           | Inl e \<Rightarrow> Raised e
           | Inr (b, coefs) \<Rightarrow> returned (copy_op R self other b coefs)))"

section \<open>Properties\<close>

subsection \<open>Arithmetic helpers\<close>

lemma map2_same: "map2 f xs (map g xs) = map (\<lambda>x. f x (g x)) xs"
  by (induction xs) simp_all

lemma put_mask_map: "put_mask xs (map p xs) v = map (\<lambda>x. if p x then v else x) xs"
  by (simp add: put_mask_def map2_same)

lemma put_mask_map2:
  "put_mask (map f xs) (map p xs) v = map (\<lambda>x. if p x then v else f x) xs"
  by (induction xs) (simp_all add: put_mask_def)

lemma tie_masks:
  "put_mask (put_mask d (map z d) (Fin 1)) (map Not (map z d)) (Fin 0) =
     map (\<lambda>x. if z x then Fin 1 else Fin 0) d"
proof -
  have "put_mask d (map z d) (Fin 1) = map (\<lambda>x. if z x then Fin 1 else x) d"
    by (rule put_mask_map)
  moreover have "map Not (map z d) = map (\<lambda>x. \<not> z x) d"
    by simp
  ultimately show ?thesis
    by (simp add: put_mask_map2 cong: map_cong)
qed

lemma np_sum_indicator:
  "np_sum (map (\<lambda>x. if z x then Fin 1 else Fin 0) d) = Fin (real (length (filter z d)))"
  by (induction d) (simp_all add: np_sum_def)

lemma np_any_map: "np_any (map z d) = (\<exists>x\<in>set d. z x)"
  by (simp add: np_any_def list_ex_iff)

subsection \<open>Reciprocal-distance weights\<close>

lemma distance_weights_tie:
  assumes "a < length h" and "\<exists>x\<in>set (h ! a). np_eq x (Fin 0)"
  shows "distance_weights h a =
    (a, h[a := map (\<lambda>x. if np_eq x (Fin 0) then Fin 1 else Fin 0) (h ! a)])"
proof -
  have "np_any (map (\<lambda>x. np_eq x (Fin 0)) (h ! a))"
    using assms(2) by (simp add: np_any_map)
  then show ?thesis
    using assms(1) by (simp add: distance_weights_def Let_def tie_masks del: map_map)
qed

lemma distance_weights_no_tie:
  assumes "\<not> (\<exists>x\<in>set (h ! a). np_eq x (Fin 0))"
  shows "distance_weights h a = (length h, h @ [map (np_div (Fin 1)) (h ! a)])"
  using assms by (simp add: distance_weights_def Let_def np_any_map)

text \<open>
  Claim C10. \<open>_distance_weights\<close> is destructive exactly in the tie case. When the distance
  array holds a zero, the array returned is the array given, overwritten with the
  weights (1 at the zero entries, 0 elsewhere), so the distances are lost. When it holds
  no zero, the result is a newly allocated array of reciprocals and the array given keeps
  its values.
\<close>

theorem distance_weights_destructive_iff_tie:
  assumes "distance < length h"
  shows "((\<exists>x\<in>set (h ! distance). np_eq x (Fin 0)) \<longrightarrow>
           distance_weights h distance =
             (distance,
              h[distance := map (\<lambda>x. if np_eq x (Fin 0) then Fin 1 else Fin 0) (h ! distance)])
           \<and> snd (distance_weights h distance) ! distance \<noteq> h ! distance)
       \<and> (\<not> (\<exists>x\<in>set (h ! distance). np_eq x (Fin 0)) \<longrightarrow>
           distance_weights h distance =
             (length h, h @ [map (np_div (Fin 1)) (h ! distance)])
           \<and> fst (distance_weights h distance) \<noteq> distance
           \<and> snd (distance_weights h distance) ! distance = h ! distance)"
proof (intro conjI impI)
  assume tie: "\<exists>x\<in>set (h ! distance). np_eq x (Fin 0)"
  show eq: "distance_weights h distance =
      (distance,
       h[distance := map (\<lambda>x. if np_eq x (Fin 0) then Fin 1 else Fin 0) (h ! distance)])"
    by (rule distance_weights_tie [OF assms tie])
  from tie obtain x where x: "x \<in> set (h ! distance)" "np_eq x (Fin 0)"
    by blast
  have "map (\<lambda>x. if np_eq x (Fin 0) then Fin 1 else Fin 0) (h ! distance) \<noteq> h ! distance"
  proof
    assume "map (\<lambda>x. if np_eq x (Fin 0) then Fin 1 else Fin 0) (h ! distance) = h ! distance"
    then have "\<forall>y\<in>set (h ! distance). (if np_eq y (Fin 0) then Fin 1 else Fin 0) = y"
      by (simp add: map_idI list.map_ident_strong map_eq_conv[where g="\<lambda>x. x", simplified])
    with x have "Fin 1 = x" by auto
    with x(2) show False by auto
  qed
  then show "snd (distance_weights h distance) ! distance \<noteq> h ! distance"
    using assms by (simp add: eq)
next
  assume nt: "\<not> (\<exists>x\<in>set (h ! distance). np_eq x (Fin 0))"
  show eq: "distance_weights h distance =
      (length h, h @ [map (np_div (Fin 1)) (h ! distance)])"
    by (rule distance_weights_no_tie [OF nt])
  show "fst (distance_weights h distance) \<noteq> distance"
    using assms by (simp add: eq)
  show "snd (distance_weights h distance) ! distance = h ! distance"
    using assms by (simp add: eq nth_append)
qed

theorem distance_weights_destructive_iff_tie_witness:
  "distance_weights [[Fin 0, Fin 2]] 0 = (0, [[Fin 1, Fin 0]])
   \<and> distance_weights [[Fin 4, Fin 2]] 0 = (1, [[Fin 4, Fin 2], [Fin (1/4), Fin (1/2)]])"
  using distance_weights_destructive_iff_tie [of 0 "[[Fin 0, Fin 2]]"]
        distance_weights_destructive_iff_tie [of 0 "[[Fin 4, Fin 2]]"]
  by simp

text \<open>
  Claim C2. With \<open>weights="distance"\<close> and a neighbour at distance zero, the weights
  that enter the weighted average, after the renormalisation to sum 1, are the same
  positive value \<open>1 / k\<close> at each of the \<open>k\<close> zero-distance neighbours and 0 at every
  other neighbour. For the distances \<open>[0, 0, 5]\<close> they are \<open>[0.5, 0.5, 0]\<close>.
\<close>

theorem distance_weights_tie_rule:
  assumes "distance < length h" and "\<exists>x\<in>set (h ! distance). np_eq x (Fin 0)"
  shows "0 < length (filter (\<lambda>x. np_eq x (Fin 0)) (h ! distance))
     \<and> prediction_from_neighbors Distance fmean fwsum h X distance =
         (let k = length (filter (\<lambda>x. np_eq x (Fin 0)) (h ! distance));
              w = map (\<lambda>x. if np_eq x (Fin 0) then Fin (1 / real k) else Fin 0) (h ! distance)
          in (fwsum X w, h[distance := w]))
     \<and> prediction_from_neighbors Distance fmean fwsum [[Fin 0, Fin 0, Fin 5]] X 0 =
         (fwsum X [Fin (1 / 2), Fin (1 / 2), Fin 0], [[Fin (1 / 2), Fin (1 / 2), Fin 0]])"
proof -
  let ?z = "\<lambda>x. np_eq x (Fin 0)"
  let ?k = "length (filter ?z (h ! distance))"
  let ?t = "map (\<lambda>x. if ?z x then Fin 1 else Fin 0) (h ! distance)"
  have k: "0 < ?k"
    using assms(2) by (simp add: length_greater_0_conv filter_empty_conv)
  have dw: "distance_weights h distance = (distance, h[distance := ?t])"
    by (rule distance_weights_tie [OF assms])
  have norm: "map (\<lambda>x. np_div x (Fin (real ?k))) ?t =
      map (\<lambda>x. if ?z x then Fin (1 / real ?k) else Fin 0) (h ! distance)"
    using k by simp
  have gen: "prediction_from_neighbors Distance fmean fwsum h X distance =
      (let k = ?k; w = map (\<lambda>x. if ?z x then Fin (1 / real k) else Fin 0) (h ! distance)
       in (fwsum X w, h[distance := w]))"
    using assms(1) norm
    by (simp add: prediction_from_neighbors_def dw average_def normalize_inplace_def
        np_sum_indicator Let_def del: map_map)
  have inst: "prediction_from_neighbors Distance fmean fwsum [[Fin 0, Fin 0, Fin 5]] X 0 =
      (fwsum X [Fin (1 / 2), Fin (1 / 2), Fin 0], [[Fin (1 / 2), Fin (1 / 2), Fin 0]])"
    by (simp add: prediction_from_neighbors_def distance_weights_def average_def
        normalize_inplace_def np_sum_def np_any_def put_mask_def Let_def)
  from k gen inst show ?thesis by blast
qed

theorem distance_weights_tie_rule_witness:
  "prediction_from_neighbors Distance (\<lambda>X. X) (\<lambda>X w. [np_sum (map2 np_mul X w)])
      [[Fin 0, Fin 3, Fin 0, Fin 0]] [Fin 6, Fin 1, Fin 9, Fin 0] 0 =
     ([Fin 5], [[Fin (1 / 3), Fin 0, Fin (1 / 3), Fin (1 / 3)]])"
  using distance_weights_tie_rule [of 0 "[[Fin 0, Fin 3, Fin 0, Fin 0]]" "\<lambda>X. X"
      "\<lambda>X w. [np_sum (map2 np_mul X w)]" "[Fin 6, Fin 1, Fin 9, Fin 0]"]
  by (simp add: np_sum_def)

subsection \<open>Functional regression: prediction\<close>

lemma predict_loop_ok:
  assumes "\<forall>k<length rest.
     predict_sample self fm fw nbrs ds (i + 1 + k) (rest ! k) = Inr (p (i + 1 + k))"
  shows "predict_loop self fm fw nbrs ds i rest pred =
     Inr (pred @ concat (map p [i + 1..<i + 1 + length rest]))"
  using assms
proof (induction rest arbitrary: i pred)
  case Nil
  then show ?case by simp
next
  case (Cons idx rest)
  from Cons.prems have hd: "predict_sample self fm fw nbrs ds (i + 1) idx = Inr (p (i + 1))"
    by fastforce
  have tl: "\<forall>k<length rest.
     predict_sample self fm fw nbrs ds (i + 1 + 1 + k) (rest ! k) = Inr (p (i + 1 + 1 + k))"
  proof (intro allI impI)
    fix k assume "k < length rest"
    then have "Suc k < length (idx # rest)" by simp
    with Cons.prems
    have "predict_sample self fm fw nbrs ds (i + 1 + Suc k) ((idx # rest) ! Suc k) =
        Inr (p (i + 1 + Suc k))"
      by blast
    then show "predict_sample self fm fw nbrs ds (i + 1 + 1 + k) (rest ! k) =
        Inr (p (i + 1 + 1 + k))"
      by simp
  qed
  have "[i + 1..<i + 1 + length (idx # rest)] = (i + 1) # [i + 1 + 1..<i + 1 + 1 + length rest]"
    using upt_conv_Cons [of "i + 1" "i + 1 + length (idx # rest)"] by simp
  then show ?case
    using hd Cons.IH [OF tl, of "pred @ p (i + 1)"] by simp
qed

lemma predict_loop_err:
  assumes "\<forall>k<length rest.
       predict_sample self fm fw nbrs ds (i + 1 + k) (rest ! k) = Inl E
     \<or> (\<exists>r. predict_sample self fm fw nbrs ds (i + 1 + k) (rest ! k) = Inr r)"
    and "\<exists>k<length rest. predict_sample self fm fw nbrs ds (i + 1 + k) (rest ! k) = Inl E"
  shows "predict_loop self fm fw nbrs ds i rest pred = Inl E"
  using assms
proof (induction rest arbitrary: i pred)
  case Nil
  then show ?case by simp
next
  case (Cons idx rest)
  from Cons.prems(1) have hd:
    "predict_sample self fm fw nbrs ds (i + 1) idx = Inl E
     \<or> (\<exists>r. predict_sample self fm fw nbrs ds (i + 1) idx = Inr r)"
    by fastforce
  show ?case
  proof (cases "predict_sample self fm fw nbrs ds (i + 1) idx")
    case (Inl e)
    with hd show ?thesis by simp
  next
    case (Inr r)
    have tl: "\<forall>k<length rest.
         predict_sample self fm fw nbrs ds (i + 1 + 1 + k) (rest ! k) = Inl E
       \<or> (\<exists>r. predict_sample self fm fw nbrs ds (i + 1 + 1 + k) (rest ! k) = Inr r)"
    proof (intro allI impI)
      fix k assume "k < length rest"
      then have "Suc k < length (idx # rest)" by simp
      with Cons.prems(1)
      have "predict_sample self fm fw nbrs ds (i + 1 + Suc k) ((idx # rest) ! Suc k) = Inl E
       \<or> (\<exists>r. predict_sample self fm fw nbrs ds (i + 1 + Suc k) ((idx # rest) ! Suc k) = Inr r)"
        by blast
      then show "predict_sample self fm fw nbrs ds (i + 1 + 1 + k) (rest ! k) = Inl E
       \<or> (\<exists>r. predict_sample self fm fw nbrs ds (i + 1 + 1 + k) (rest ! k) = Inr r)"
        by simp
    qed
    from Cons.prems(2) obtain k where k: "k < length (idx # rest)"
      "predict_sample self fm fw nbrs ds (i + 1 + k) ((idx # rest) ! k) = Inl E"
      by blast
    have "k \<noteq> 0" using k(2) Inr by (cases k) auto
    then obtain k' where k': "k = Suc k'" by (cases k) auto
    with k have "k' < length rest"
      "predict_sample self fm fw nbrs ds (i + 1 + 1 + k') (rest ! k') = Inl E"
      by simp_all
    then have ex: "\<exists>k<length rest.
        predict_sample self fm fw nbrs ds (i + 1 + 1 + k) (rest ! k) = Inl E"
      by blast
    show ?thesis
      using Inr Cons.IH [OF tl ex, of "pred @ r"] by simp
  qed
qed

lemma predict_sample_empty:
  "predict_sample self fm fw nbrs ds i [] = outlier_response self nbrs"
  by (simp add: predict_sample_def)

lemma predict_sample_nonempty:
  assumes "idx \<noteq> []" and "\<forall>j\<in>set idx. j < length (y_attr self)" and "i < length ds"
  shows "predict_sample self fm fw nbrs ds i idx =
     Inr (fst (prediction_from_neighbors (weights self) fm fw [ds ! i]
            (map (\<lambda>j. y_attr self ! j) idx) 0))"
  using assms by (simp add: predict_sample_def getitem_def getrow_def list_all_iff)

lemma functional_predict_all_ok:
  assumes "neighbors \<noteq> []"
    and "\<forall>i<length neighbors.
       predict_sample self fm fw neighbors ds i (neighbors ! i) = Inr (p i)"
  shows "functional_predict self fm fw ds neighbors =
     Inr (concat (map p [0..<length neighbors]))"
proof -
  from assms(1) obtain idx0 rest where nb: "neighbors = idx0 # rest"
    by (cases neighbors) auto
  have first: "predict_sample self fm fw neighbors ds 0 idx0 = Inr (p 0)"
    using assms(2) nb by fastforce
  have "\<forall>k<length rest.
      predict_sample self fm fw neighbors ds (0 + 1 + k) (rest ! k) = Inr (p (0 + 1 + k))"
  proof (intro allI impI)
    fix k assume "k < length rest"
    then have "Suc k < length neighbors" by (simp add: nb)
    with assms(2)
    have "predict_sample self fm fw neighbors ds (Suc k) (neighbors ! Suc k) = Inr (p (Suc k))"
      by blast
    then show "predict_sample self fm fw neighbors ds (0 + 1 + k) (rest ! k) =
        Inr (p (0 + 1 + k))"
      by (simp add: nb)
  qed
  from predict_loop_ok [OF this, of "p 0"]
  have loop: "predict_loop self fm fw neighbors ds 0 rest (p 0) =
      Inr (p 0 @ concat (map p [0 + 1..<0 + 1 + length rest]))" .
  have "[0..<length neighbors] = 0 # [0 + 1..<0 + 1 + length rest]"
    using upt_conv_Cons [of 0 "length neighbors"] by (simp add: nb)
  then have "concat (map p [0..<length neighbors]) =
      p 0 @ concat (map p [0 + 1..<0 + 1 + length rest])"
    by simp
  with loop first show ?thesis
    by (simp add: functional_predict_def nb)
qed

lemma functional_predict_some_err:
  assumes "\<forall>i<length neighbors.
       predict_sample self fm fw neighbors ds i (neighbors ! i) = Inl E
     \<or> (\<exists>r. predict_sample self fm fw neighbors ds i (neighbors ! i) = Inr r)"
    and "\<exists>i<length neighbors.
       predict_sample self fm fw neighbors ds i (neighbors ! i) = Inl E"
  shows "functional_predict self fm fw ds neighbors = Inl E"
proof -
  from assms(2) have "neighbors \<noteq> []" by auto
  then obtain idx0 rest where nb: "neighbors = idx0 # rest"
    by (cases neighbors) auto
  have first: "predict_sample self fm fw neighbors ds 0 idx0 = Inl E
     \<or> (\<exists>r. predict_sample self fm fw neighbors ds 0 idx0 = Inr r)"
    using assms(1) nb by fastforce
  show ?thesis
  proof (cases "predict_sample self fm fw neighbors ds 0 idx0")
    case (Inl e)
    with first show ?thesis by (simp add: functional_predict_def nb)
  next
    case (Inr r)
    have all: "\<forall>k<length rest.
         predict_sample self fm fw neighbors ds (0 + 1 + k) (rest ! k) = Inl E
       \<or> (\<exists>r. predict_sample self fm fw neighbors ds (0 + 1 + k) (rest ! k) = Inr r)"
    proof (intro allI impI)
      fix k assume "k < length rest"
      then have "Suc k < length neighbors" by (simp add: nb)
      with assms(1)
      have "predict_sample self fm fw neighbors ds (Suc k) (neighbors ! Suc k) = Inl E
       \<or> (\<exists>r. predict_sample self fm fw neighbors ds (Suc k) (neighbors ! Suc k) = Inr r)"
        by blast
      then show "predict_sample self fm fw neighbors ds (0 + 1 + k) (rest ! k) = Inl E
       \<or> (\<exists>r. predict_sample self fm fw neighbors ds (0 + 1 + k) (rest ! k) = Inr r)"
        by (simp add: nb)
    qed
    from assms(2) obtain i where i: "i < length neighbors"
      "predict_sample self fm fw neighbors ds i (neighbors ! i) = Inl E"
      by blast
    have "i \<noteq> 0" using i(2) Inr nb by (cases i) auto
    then obtain k where "i = Suc k" by (cases i) auto
    with i nb have "k < length rest"
      "predict_sample self fm fw neighbors ds (0 + 1 + k) (rest ! k) = Inl E"
      by simp_all
    then have ex: "\<exists>k<length rest.
        predict_sample self fm fw neighbors ds (0 + 1 + k) (rest ! k) = Inl E"
      by blast
    from predict_loop_err [OF all ex, of r] Inr show ?thesis
      by (simp add: functional_predict_def nb)
  qed
qed

lemma prediction_value:
  assumes "case wt of Custom f \<Rightarrow> fst (f [d] 0) < length (snd (f [d] 0)) | _ \<Rightarrow> True"
  shows "fst (prediction_from_neighbors wt fm fw [d] nb 0) =
     (case wt of
        Uniform \<Rightarrow> fm nb
      | Distance \<Rightarrow>
          (let w = (if \<exists>x\<in>set d. np_eq x (Fin 0)
                    then map (\<lambda>x. if np_eq x (Fin 0) then Fin 1 else Fin 0) d
                    else map (np_div (Fin 1)) d)
           in fw nb (map (\<lambda>x. np_div x (np_sum w)) w))
      | Custom f \<Rightarrow>
          (let w = snd (f [d] 0) ! fst (f [d] 0)
           in fw nb (map (\<lambda>x. np_div x (np_sum w)) w)))"
proof (cases wt)
  case Uniform
  then show ?thesis
    by (simp add: prediction_from_neighbors_def average_def)
next
  case Distance
  show ?thesis
  proof (cases "\<exists>x\<in>set d. np_eq x (Fin 0)")
    case True
    then have "\<exists>x\<in>set ([d] ! 0). np_eq x (Fin 0)" by simp
    from distance_weights_tie [of 0 "[d]", OF _ this]
    have "distance_weights [d] 0 =
        (0, [map (\<lambda>x. if np_eq x (Fin 0) then Fin 1 else Fin 0) d])"
      by simp
    then show ?thesis
      using True Distance
      by (simp add: prediction_from_neighbors_def average_def normalize_inplace_def Let_def
          del: map_map)
  next
    case False
    then have "\<not> (\<exists>x\<in>set ([d] ! 0). np_eq x (Fin 0))" by simp
    from distance_weights_no_tie [OF this]
    have "distance_weights [d] 0 = (1, [d, map (np_div (Fin 1)) d])"
      by simp
    then show ?thesis
      using False Distance
      by (simp add: prediction_from_neighbors_def average_def normalize_inplace_def Let_def
          del: map_map)
  qed
next
  case (Custom f)
  with assms have "fst (f [d] 0) < length (snd (f [d] 0))" by simp
  then show ?thesis
    using Custom
    by (simp add: prediction_from_neighbors_def average_def normalize_inplace_def Let_def
        split_beta del: map_map)
qed

text \<open>
  Claim C3. Functional regression \<open>predict\<close>, on a query result with at least one test
  sample, one distance row per sample and neighbour indices inside the stored responses
  (and, for callable weights, a callable that returns an array that exists). With no
  fallback response and a sample without neighbours, the prediction fails with the error
  that names every sample without neighbours. Otherwise the result is, in input order,
  the fallback for each sample without neighbours and, for each other sample, the
  weighted average of its neighbours' responses: their mean for uniform weights, and
  their sum weighted by the weights normalised to sum 1 for reciprocal-distance weights
  (with the tie rule) and for callable weights.
\<close>

theorem functional_predict_outliers:
  assumes "neighbors \<noteq> []"
    and "length distances = length neighbors"
    and "\<forall>idx\<in>set neighbors. \<forall>j\<in>set idx. j < length (y_attr self)"
    and "\<forall>d\<in>set distances.
           case weights self of
             Custom f \<Rightarrow> fst (f [d] 0) < length (snd (f [d] 0))
           | _ \<Rightarrow> True"
  shows "(let average_of = (\<lambda>i.
            let nb = map (\<lambda>j. y_attr self ! j) (neighbors ! i);
                d = distances ! i
            in case weights self of
                 Uniform \<Rightarrow> fm nb
               | Distance \<Rightarrow>
                   (let w = (if \<exists>x\<in>set d. np_eq x (Fin 0)
                             then map (\<lambda>x. if np_eq x (Fin 0) then Fin 1 else Fin 0) d
                             else map (np_div (Fin 1)) d)
                    in fw nb (map (\<lambda>x. np_div x (np_sum w)) w))
               | Custom f \<Rightarrow>
                   (let w = snd (f [d] 0) ! fst (f [d] 0)
                    in fw nb (map (\<lambda>x. np_div x (np_sum w)) w)))
         in
           (outlier_response_attr self = None \<and> (\<exists>idx\<in>set neighbors. idx = []) \<longrightarrow>
              functional_predict self fm fw distances neighbors =
                Inl (ValueError (NoNeighbors
                  (filter (\<lambda>i. neighbors ! i = []) [0..<length neighbors]))))
         \<and> (\<forall>fallback. outlier_response_attr self = Some fallback \<longrightarrow>
              functional_predict self fm fw distances neighbors =
                Inr (concat (map (\<lambda>i. if neighbors ! i = [] then fallback else average_of i)
                       [0..<length neighbors])))
         \<and> (outlier_response_attr self = None \<and> (\<forall>idx\<in>set neighbors. idx \<noteq> []) \<longrightarrow>
              functional_predict self fm fw distances neighbors =
                Inr (concat (map average_of [0..<length neighbors]))))"
proof -
  define average_of where "average_of = (\<lambda>i.
      let nb = map (\<lambda>j. y_attr self ! j) (neighbors ! i);
          d = distances ! i
      in case weights self of
           Uniform \<Rightarrow> fm nb
         | Distance \<Rightarrow>
             (let w = (if \<exists>x\<in>set d. np_eq x (Fin 0)
                       then map (\<lambda>x. if np_eq x (Fin 0) then Fin 1 else Fin 0) d
                       else map (np_div (Fin 1)) d)
              in fw nb (map (\<lambda>x. np_div x (np_sum w)) w))
         | Custom f \<Rightarrow>
             (let w = snd (f [d] 0) ! fst (f [d] 0)
              in fw nb (map (\<lambda>x. np_div x (np_sum w)) w)))"
  have avg: "predict_sample self fm fw neighbors distances i (neighbors ! i) =
      Inr (average_of i)"
    if "i < length neighbors" "neighbors ! i \<noteq> []" for i
  proof -
    from that(1) have "neighbors ! i \<in> set neighbors" by simp
    with assms(3) have in_range: "\<forall>j\<in>set (neighbors ! i). j < length (y_attr self)"
      by blast
    from that(1) assms(2) have len: "i < length distances" by simp
    then have "distances ! i \<in> set distances" by simp
    with assms(4) have "case weights self of
        Custom f \<Rightarrow> fst (f [distances ! i] 0) < length (snd (f [distances ! i] 0))
      | _ \<Rightarrow> True"
      by blast
    from prediction_value [OF this, where fm = fm and fw = fw
        and nb = "map (\<lambda>j. y_attr self ! j) (neighbors ! i)"]
    have "fst (prediction_from_neighbors (weights self) fm fw [distances ! i]
            (map (\<lambda>j. y_attr self ! j) (neighbors ! i)) 0) = average_of i"
      unfolding average_of_def Let_def .
    with predict_sample_nonempty [OF that(2) in_range len] show ?thesis
      by simp
  qed
  have part1: "functional_predict self fm fw distances neighbors =
      Inl (ValueError (NoNeighbors (filter (\<lambda>i. neighbors ! i = []) [0..<length neighbors])))"
    if h: "outlier_response_attr self = None \<and> (\<exists>idx\<in>set neighbors. idx = [])"
  proof -
    let ?E = "ValueError (NoNeighbors (filter (\<lambda>i. neighbors ! i = []) [0..<length neighbors]))"
    have emp: "predict_sample self fm fw neighbors distances i [] = Inl ?E" for i
      using h by (simp add: predict_sample_def outlier_response_def)
    have all: "\<forall>i<length neighbors.
         predict_sample self fm fw neighbors distances i (neighbors ! i) = Inl ?E
       \<or> (\<exists>r. predict_sample self fm fw neighbors distances i (neighbors ! i) = Inr r)"
    proof (intro allI impI)
      fix i assume i: "i < length neighbors"
      show "predict_sample self fm fw neighbors distances i (neighbors ! i) = Inl ?E
       \<or> (\<exists>r. predict_sample self fm fw neighbors distances i (neighbors ! i) = Inr r)"
      proof (cases "neighbors ! i = []")
        case True
        then show ?thesis using emp by simp
      next
        case False
        then show ?thesis using avg [OF i] by simp
      qed
    qed
    from h obtain i where "i < length neighbors" "neighbors ! i = []"
      by (metis in_set_conv_nth)
    then have "\<exists>i<length neighbors.
        predict_sample self fm fw neighbors distances i (neighbors ! i) = Inl ?E"
      using emp by auto
    from functional_predict_some_err [OF all this] show ?thesis .
  qed
  have part2: "functional_predict self fm fw distances neighbors =
      Inr (concat (map (\<lambda>i. if neighbors ! i = [] then fallback else average_of i)
             [0..<length neighbors]))"
    if h: "outlier_response_attr self = Some fallback" for fallback
  proof -
    have "\<forall>i<length neighbors.
        predict_sample self fm fw neighbors distances i (neighbors ! i) =
          Inr (if neighbors ! i = [] then fallback else average_of i)"
    proof (intro allI impI)
      fix i assume i: "i < length neighbors"
      show "predict_sample self fm fw neighbors distances i (neighbors ! i) =
          Inr (if neighbors ! i = [] then fallback else average_of i)"
      proof (cases "neighbors ! i = []")
        case True
        then show ?thesis using h by (simp add: predict_sample_def outlier_response_def)
      next
        case False
        then show ?thesis using avg [OF i] by simp
      qed
    qed
    from functional_predict_all_ok [OF assms(1) this] show ?thesis .
  qed
  have part3: "functional_predict self fm fw distances neighbors =
      Inr (concat (map average_of [0..<length neighbors]))"
    if h: "outlier_response_attr self = None \<and> (\<forall>idx\<in>set neighbors. idx \<noteq> [])"
  proof -
    have "\<forall>i<length neighbors.
        predict_sample self fm fw neighbors distances i (neighbors ! i) = Inr (average_of i)"
      using avg h by simp
    from functional_predict_all_ok [OF assms(1) this] show ?thesis .
  qed
  from part1 part2 part3 show ?thesis
    unfolding Let_def average_of_def by blast
qed

theorem functional_predict_outliers_witness:
  "functional_predict
      \<lparr>weights = Uniform, outlier_response_attr = Some [Fin 9], y_attr = [Fin 1, Fin 3]\<rparr>
      (\<lambda>X. [np_div (np_sum X) (Fin (real (length X)))])
      (\<lambda>X w. [np_sum (map2 np_mul X w)])
      [[Fin 1, Fin 2], [], [Fin 1]] [[0, 1], [], [1]] = Inr [Fin 2, Fin 9, Fin 3]
   \<and> functional_predict
      \<lparr>weights = Uniform, outlier_response_attr = None, y_attr = [Fin 1, Fin 3]\<rparr>
      (\<lambda>X. [np_div (np_sum X) (Fin (real (length X)))])
      (\<lambda>X w. [np_sum (map2 np_mul X w)])
      [[Fin 1, Fin 2], [], [Fin 1], []] [[0, 1], [], [1], []] =
        Inl (ValueError (NoNeighbors [1, 3]))
   \<and> functional_predict
      \<lparr>weights = Distance, outlier_response_attr = None, y_attr = [Fin 1, Fin 3]\<rparr>
      (\<lambda>X. [np_div (np_sum X) (Fin (real (length X)))])
      (\<lambda>X w. [np_sum (map2 np_mul X w)])
      [[Fin 1, Fin 3], [Fin 0]] [[0, 1], [1]] = Inr [Fin (3 / 2), Fin 3]
   \<and> functional_predict
      \<lparr>weights = Custom (\<lambda>h a. (a, h)), outlier_response_attr = Some [Fin 9],
       y_attr = [Fin 1, Fin 3]\<rparr>
      (\<lambda>X. [np_div (np_sum X) (Fin (real (length X)))])
      (\<lambda>X w. [np_sum (map2 np_mul X w)])
      [[Fin 1, Fin 3], []] [[0, 1], []] = Inr [Fin (5 / 2), Fin 9]"
proof -
  have u: "[0..<3] = [0, 1, 2]" "[0..<4] = [0, 1, 2, 3]" "[0..<2] = [0, 1]"
    by (simp_all add: upt_rec)
  show ?thesis
    using
      functional_predict_outliers [of "[[0, 1], [], [1]]" "[[Fin 1, Fin 2], [], [Fin 1]]"
        "\<lparr>weights = Uniform, outlier_response_attr = Some [Fin 9], y_attr = [Fin 1, Fin 3]\<rparr>"
        "(\<lambda>X. [np_div (np_sum X) (Fin (real (length X)))])"
        "(\<lambda>X w. [np_sum (map2 np_mul X w)])"]
      functional_predict_outliers [of "[[0, 1], [], [1], []]"
        "[[Fin 1, Fin 2], [], [Fin 1], []]"
        "\<lparr>weights = Uniform, outlier_response_attr = None, y_attr = [Fin 1, Fin 3]\<rparr>"
        "(\<lambda>X. [np_div (np_sum X) (Fin (real (length X)))])"
        "(\<lambda>X w. [np_sum (map2 np_mul X w)])"]
      functional_predict_outliers [of "[[0, 1], [1]]" "[[Fin 1, Fin 3], [Fin 0]]"
        "\<lparr>weights = Distance, outlier_response_attr = None, y_attr = [Fin 1, Fin 3]\<rparr>"
        "(\<lambda>X. [np_div (np_sum X) (Fin (real (length X)))])"
        "(\<lambda>X w. [np_sum (map2 np_mul X w)])"]
      functional_predict_outliers [of "[[0, 1], []]" "[[Fin 1, Fin 3], []]"
        "\<lparr>weights = Custom (\<lambda>h a. (a, h)), outlier_response_attr = Some [Fin 9],
          y_attr = [Fin 1, Fin 3]\<rparr>"
        "(\<lambda>X. [np_div (np_sum X) (Fin (real (length X)))])"
        "(\<lambda>X w. [np_sum (map2 np_mul X w)])"]
    by (simp add: u np_sum_def Let_def)
qed

subsection \<open>Basis representation\<close>

lemma np_eq_refl: "np_eq c c = (\<not> np_isnan c)"
  by (cases c) simp_all

lemma array_equal_refl:
  "array_equal a a = list_all (list_all (\<lambda>c. \<not> np_isnan c)) (rows a)"
  by (simp add: array_equal_def list_all2_same list_all_iff np_eq_refl)

lemma init_result:
  assumes "FDataBasis_init b c kw = Inr fd"
  shows "ncols (atleast_2d c) = n_basis b \<and> basis fd = b \<and> coefficients fd = atleast_2d c
     \<and> is_instance fd"
  using assms
  by (auto simp: FDataBasis_init_def FData_init_def is_instance_def n_samples_def
      int_to_real_def Let_def split: if_splits)

lemma copy_instance:
  assumes "is_instance self"
  shows "copy self None None no_kwargs = Inr self"
proof -
  obtain b c e d a co s where self: "self = \<lparr>basis = b, coefficients = c, extrapolation = e,
      dataset_name = d, argument_names = a, coordinate_names = co, sample_names = s\<rparr>"
    by (cases self) simp
  show ?thesis
    using assms
    by (simp add: self copy_def FDataBasis_init_def FData_init_def is_instance_def
        n_samples_def int_to_real_def or_self_def no_kwargs_def)
qed

text \<open>
  Claim C4. Construction succeeds only when the column count of the coefficients, after
  the promotion to a matrix, is \<open>basis.n_basis\<close>; every instance constructed has that
  column count; any other column count fails with the column-count \<open>ValueError\<close>; with
  the right column count and no metadata the construction succeeds; a coefficient vector
  is promoted to a one-row matrix.
\<close>

theorem init_column_invariant:
  "(\<forall>fd. FDataBasis_init b c kw = Inr fd \<longrightarrow>
       ncols (atleast_2d c) = n_basis b \<and> ncols (coefficients fd) = n_basis (basis fd))
   \<and> (ncols (atleast_2d c) \<noteq> n_basis b \<longrightarrow>
       FDataBasis_init b c kw = Inl (ValueError BadColumns))
   \<and> (ncols (atleast_2d c) = n_basis b \<longrightarrow>
       (\<exists>fd. FDataBasis_init b c no_kwargs = Inr fd \<and> coefficients fd = atleast_2d c))
   \<and> atleast_2d (Vector v) = \<lparr>ncols = length v, rows = [v]\<rparr>"
proof (intro conjI allI impI)
  fix fd assume "FDataBasis_init b c kw = Inr fd"
  from init_result [OF this]
  show "ncols (atleast_2d c) = n_basis b" "ncols (coefficients fd) = n_basis (basis fd)"
    by simp_all
next
  assume "ncols (atleast_2d c) \<noteq> n_basis b"
  then show "FDataBasis_init b c kw = Inl (ValueError BadColumns)"
    by (simp add: FDataBasis_init_def int_to_real_def)
next
  assume "ncols (atleast_2d c) = n_basis b"
  then show "\<exists>fd. FDataBasis_init b c no_kwargs = Inr fd \<and> coefficients fd = atleast_2d c"
    by (simp add: FDataBasis_init_def FData_init_def int_to_real_def no_kwargs_def names_ok_def)
next
  show "atleast_2d (Vector v) = \<lparr>ncols = length v, rows = [v]\<rparr>" by simp
qed

theorem init_column_invariant_witness:
  "FDataBasis_init
      \<lparr>family = ''Monomial'', n_basis = 4, dim_domain = 1, dim_codomain = 1,
       domain_range = [(0, 1)]\<rparr>
      (Vector [Fin 1, Fin 1, Fin 3, Fin (1 / 2)]) no_kwargs =
     Inr \<lparr>basis = \<lparr>family = ''Monomial'', n_basis = 4, dim_domain = 1, dim_codomain = 1,
                    domain_range = [(0, 1)]\<rparr>,
          coefficients = \<lparr>ncols = 4, rows = [[Fin 1, Fin 1, Fin 3, Fin (1 / 2)]]\<rparr>,
          extrapolation = None, dataset_name = None, argument_names = None,
          coordinate_names = None, sample_names = None\<rparr>
   \<and> FDataBasis_init
      \<lparr>family = ''Monomial'', n_basis = 4, dim_domain = 1, dim_codomain = 1,
       domain_range = [(0, 1)]\<rparr>
      (Vector [Fin 1, Fin 1]) no_kwargs = Inl (ValueError BadColumns)"
  using
    init_column_invariant [of
      "\<lparr>family = ''Monomial'', n_basis = 4, dim_domain = 1, dim_codomain = 1,
        domain_range = [(0, 1)]\<rparr>"
      "Vector [Fin 1, Fin 1, Fin 3, Fin (1 / 2)]" no_kwargs]
    init_column_invariant [of
      "\<lparr>family = ''Monomial'', n_basis = 4, dim_domain = 1, dim_codomain = 1,
        domain_range = [(0, 1)]\<rparr>"
      "Vector [Fin 1, Fin 1]" no_kwargs]
  by (simp add: FDataBasis_init_def FData_init_def int_to_real_def no_kwargs_def names_ok_def)

text \<open>
  Claim C9. \<open>isna\<close> returns one boolean per sample, and the boolean of sample \<open>i\<close> is
  true exactly when every coefficient of row \<open>i\<close> is NaN; a row with a coefficient that
  is not NaN is not missing.
\<close>

theorem isna_all_nan:
  "length (isna self) = n_samples self
   \<and> (\<forall>i<n_samples self.
        isna self ! i = (\<forall>c\<in>set (rows (coefficients self) ! i). np_isnan c))
   \<and> (\<forall>i<n_samples self.
        (\<exists>c\<in>set (rows (coefficients self) ! i). \<not> np_isnan c) \<longrightarrow> \<not> isna self ! i)"
  by (simp add: isna_def n_samples_def list_all_iff)

theorem isna_all_nan_witness:
  "isna \<lparr>basis = \<lparr>family = ''Monomial'', n_basis = 2, dim_domain = 1, dim_codomain = 1,
                  domain_range = [(0, 1)]\<rparr>,
         coefficients = \<lparr>ncols = 2, rows = [[NaN, NaN], [NaN, Fin 1], [Fin 0, Fin 1]]\<rparr>,
         extrapolation = None, dataset_name = None, argument_names = None,
         coordinate_names = None, sample_names = None\<rparr> = [True, False, False]"
  using isna_all_nan [of
      "\<lparr>basis = \<lparr>family = ''Monomial'', n_basis = 2, dim_domain = 1, dim_codomain = 1,
                  domain_range = [(0, 1)]\<rparr>,
         coefficients = \<lparr>ncols = 2, rows = [[NaN, NaN], [NaN, Fin 1], [Fin 0, Fin 1]]\<rparr>,
         extrapolation = None, dataset_name = None, argument_names = None,
         coordinate_names = None, sample_names = None\<rparr>"]
  by (simp add: isna_def)

text \<open>
  Claim C7. Adding or subtracting two basis representations whose bases differ returns
  the \<open>NotImplemented\<close> sentinel: no value and no error. With equal bases the methods
  pass the two coefficient matrices to the same-basis rule of the basis and build the
  result from what it returns.
\<close>

theorem add_sub_other_basis:
  "(basis self \<noteq> basis rhs \<longrightarrow>
       add R self (FDB rhs) = NotImplemented \<and> sub R self (FDB rhs) = NotImplemented)
   \<and> (basis self = basis rhs \<longrightarrow>
       add R self (FDB rhs) =
         returned (copy_op R self (FDB rhs)
           (fst (add_same_basis R (basis self) (coefficients self) (coefficients rhs)))
           (snd (add_same_basis R (basis self) (coefficients self) (coefficients rhs))))
     \<and> sub R self (FDB rhs) =
         returned (copy_op R self (FDB rhs)
           (fst (sub_same_basis R (basis self) (coefficients self) (coefficients rhs)))
           (snd (sub_same_basis R (basis self) (coefficients self) (coefficients rhs)))))"
  by (simp add: add_def sub_def split_beta)

theorem add_sub_other_basis_witness:
  "add
      (\<lparr>add_same_basis = (\<lambda>b c d. (b, Matrix \<lparr>ncols = ncols c, rows = map2 (map2 np_add) (rows c) (rows d)\<rparr>)),
        add_constant = (\<lambda>b c k. Inl TypeError),
        sub_same_basis = (\<lambda>b c d. (b, Matrix \<lparr>ncols = ncols c, rows = map2 (map2 np_sub) (rows c) (rows d)\<rparr>)),
        sub_constant = (\<lambda>b c k. Inl TypeError),
        copy_op = (\<lambda>self other b c. copy self (Some b) (Some c) no_kwargs)\<rparr> :: unit basis_rules)
      \<lparr>basis = \<lparr>family = ''Monomial'', n_basis = 2, dim_domain = 1, dim_codomain = 1, domain_range = [(0, 1)]\<rparr>,
        coefficients = \<lparr>ncols = 2, rows = [[Fin 1, Fin 2]]\<rparr>,
        extrapolation = None, dataset_name = None, argument_names = None,
        coordinate_names = None, sample_names = None\<rparr>
      (FDB \<lparr>basis = \<lparr>family = ''Monomial'', n_basis = 3, dim_domain = 1, dim_codomain = 1, domain_range = [(0, 1)]\<rparr>,
        coefficients = \<lparr>ncols = 3, rows = [[Fin 1, Fin 2, Fin 3]]\<rparr>,
        extrapolation = None, dataset_name = None, argument_names = None,
        coordinate_names = None, sample_names = None\<rparr>) = NotImplemented
   \<and> sub
      (\<lparr>add_same_basis = (\<lambda>b c d. (b, Matrix \<lparr>ncols = ncols c, rows = map2 (map2 np_add) (rows c) (rows d)\<rparr>)),
        add_constant = (\<lambda>b c k. Inl TypeError),
        sub_same_basis = (\<lambda>b c d. (b, Matrix \<lparr>ncols = ncols c, rows = map2 (map2 np_sub) (rows c) (rows d)\<rparr>)),
        sub_constant = (\<lambda>b c k. Inl TypeError),
        copy_op = (\<lambda>self other b c. copy self (Some b) (Some c) no_kwargs)\<rparr> :: unit basis_rules)
      \<lparr>basis = \<lparr>family = ''Monomial'', n_basis = 2, dim_domain = 1, dim_codomain = 1, domain_range = [(0, 1)]\<rparr>,
        coefficients = \<lparr>ncols = 2, rows = [[Fin 1, Fin 2]]\<rparr>,
        extrapolation = None, dataset_name = None, argument_names = None,
        coordinate_names = None, sample_names = None\<rparr>
      (FDB \<lparr>basis = \<lparr>family = ''Monomial'', n_basis = 3, dim_domain = 1, dim_codomain = 1, domain_range = [(0, 1)]\<rparr>,
        coefficients = \<lparr>ncols = 3, rows = [[Fin 1, Fin 2, Fin 3]]\<rparr>,
        extrapolation = None, dataset_name = None, argument_names = None,
        coordinate_names = None, sample_names = None\<rparr>) = NotImplemented
   \<and> add
      (\<lparr>add_same_basis = (\<lambda>b c d. (b, Matrix \<lparr>ncols = ncols c, rows = map2 (map2 np_add) (rows c) (rows d)\<rparr>)),
        add_constant = (\<lambda>b c k. Inl TypeError),
        sub_same_basis = (\<lambda>b c d. (b, Matrix \<lparr>ncols = ncols c, rows = map2 (map2 np_sub) (rows c) (rows d)\<rparr>)),
        sub_constant = (\<lambda>b c k. Inl TypeError),
        copy_op = (\<lambda>self other b c. copy self (Some b) (Some c) no_kwargs)\<rparr> :: unit basis_rules)
      \<lparr>basis = \<lparr>family = ''Monomial'', n_basis = 2, dim_domain = 1, dim_codomain = 1, domain_range = [(0, 1)]\<rparr>,
        coefficients = \<lparr>ncols = 2, rows = [[Fin 1, Fin 2]]\<rparr>,
        extrapolation = None, dataset_name = None, argument_names = None,
        coordinate_names = None, sample_names = None\<rparr>
      (FDB \<lparr>basis = \<lparr>family = ''Monomial'', n_basis = 2, dim_domain = 1, dim_codomain = 1, domain_range = [(0, 1)]\<rparr>,
        coefficients = \<lparr>ncols = 2, rows = [[Fin 5, Fin 1]]\<rparr>,
        extrapolation = None, dataset_name = None, argument_names = None,
        coordinate_names = None, sample_names = None\<rparr>) =
     Returned \<lparr>basis = \<lparr>family = ''Monomial'', n_basis = 2, dim_domain = 1, dim_codomain = 1, domain_range = [(0, 1)]\<rparr>,
        coefficients = \<lparr>ncols = 2, rows = [[Fin 6, Fin 3]]\<rparr>,
        extrapolation = None, dataset_name = None, argument_names = None,
        coordinate_names = None, sample_names = None\<rparr>
   \<and> sub
      (\<lparr>add_same_basis = (\<lambda>b c d. (b, Matrix \<lparr>ncols = ncols c, rows = map2 (map2 np_add) (rows c) (rows d)\<rparr>)),
        add_constant = (\<lambda>b c k. Inl TypeError),
        sub_same_basis = (\<lambda>b c d. (b, Matrix \<lparr>ncols = ncols c, rows = map2 (map2 np_sub) (rows c) (rows d)\<rparr>)),
        sub_constant = (\<lambda>b c k. Inl TypeError),
        copy_op = (\<lambda>self other b c. copy self (Some b) (Some c) no_kwargs)\<rparr> :: unit basis_rules)
      \<lparr>basis = \<lparr>family = ''Monomial'', n_basis = 2, dim_domain = 1, dim_codomain = 1, domain_range = [(0, 1)]\<rparr>,
        coefficients = \<lparr>ncols = 2, rows = [[Fin 1, Fin 2]]\<rparr>,
        extrapolation = None, dataset_name = None, argument_names = None,
        coordinate_names = None, sample_names = None\<rparr>
      (FDB \<lparr>basis = \<lparr>family = ''Monomial'', n_basis = 2, dim_domain = 1, dim_codomain = 1, domain_range = [(0, 1)]\<rparr>,
        coefficients = \<lparr>ncols = 2, rows = [[Fin 5, Fin 1]]\<rparr>,
        extrapolation = None, dataset_name = None, argument_names = None,
        coordinate_names = None, sample_names = None\<rparr>) =
     Returned \<lparr>basis = \<lparr>family = ''Monomial'', n_basis = 2, dim_domain = 1, dim_codomain = 1, domain_range = [(0, 1)]\<rparr>,
        coefficients = \<lparr>ncols = 2, rows = [[Fin (- 4), Fin 1]]\<rparr>,
        extrapolation = None, dataset_name = None, argument_names = None,
        coordinate_names = None, sample_names = None\<rparr>"
  using
    add_sub_other_basis [of
      "\<lparr>basis = \<lparr>family = ''Monomial'', n_basis = 2, dim_domain = 1, dim_codomain = 1, domain_range = [(0, 1)]\<rparr>,
        coefficients = \<lparr>ncols = 2, rows = [[Fin 1, Fin 2]]\<rparr>,
        extrapolation = None, dataset_name = None, argument_names = None,
        coordinate_names = None, sample_names = None\<rparr>"
      "\<lparr>basis = \<lparr>family = ''Monomial'', n_basis = 3, dim_domain = 1, dim_codomain = 1, domain_range = [(0, 1)]\<rparr>,
        coefficients = \<lparr>ncols = 3, rows = [[Fin 1, Fin 2, Fin 3]]\<rparr>,
        extrapolation = None, dataset_name = None, argument_names = None,
        coordinate_names = None, sample_names = None\<rparr>"
      "\<lparr>add_same_basis = (\<lambda>b c d. (b, Matrix \<lparr>ncols = ncols c, rows = map2 (map2 np_add) (rows c) (rows d)\<rparr>)),
        add_constant = (\<lambda>b c k. Inl TypeError),
        sub_same_basis = (\<lambda>b c d. (b, Matrix \<lparr>ncols = ncols c, rows = map2 (map2 np_sub) (rows c) (rows d)\<rparr>)),
        sub_constant = (\<lambda>b c k. Inl TypeError),
        copy_op = (\<lambda>self other b c. copy self (Some b) (Some c) no_kwargs)\<rparr> :: unit basis_rules"]
    add_sub_other_basis [of
      "\<lparr>basis = \<lparr>family = ''Monomial'', n_basis = 2, dim_domain = 1, dim_codomain = 1, domain_range = [(0, 1)]\<rparr>,
        coefficients = \<lparr>ncols = 2, rows = [[Fin 1, Fin 2]]\<rparr>,
        extrapolation = None, dataset_name = None, argument_names = None,
        coordinate_names = None, sample_names = None\<rparr>"
      "\<lparr>basis = \<lparr>family = ''Monomial'', n_basis = 2, dim_domain = 1, dim_codomain = 1, domain_range = [(0, 1)]\<rparr>,
        coefficients = \<lparr>ncols = 2, rows = [[Fin 5, Fin 1]]\<rparr>,
        extrapolation = None, dataset_name = None, argument_names = None,
        coordinate_names = None, sample_names = None\<rparr>"
      "\<lparr>add_same_basis = (\<lambda>b c d. (b, Matrix \<lparr>ncols = ncols c, rows = map2 (map2 np_add) (rows c) (rows d)\<rparr>)),
        add_constant = (\<lambda>b c k. Inl TypeError),
        sub_same_basis = (\<lambda>b c d. (b, Matrix \<lparr>ncols = ncols c, rows = map2 (map2 np_sub) (rows c) (rows d)\<rparr>)),
        sub_constant = (\<lambda>b c k. Inl TypeError),
        copy_op = (\<lambda>self other b c. copy self (Some b) (Some c) no_kwargs)\<rparr> :: unit basis_rules"]
  by (simp add: returned_def copy_def FDataBasis_init_def FData_init_def int_to_real_def
      no_kwargs_def names_ok_def or_self_def np_sub_def)




text \<open>
  The claim C8 as stated fails on an instance with a NaN coefficient: the round trip
  returns a copy with the same coefficients, which \<open>equals\<close> rejects.
\<close>

theorem to_basis_nan_counterexample:
  "to_basis
      \<lparr>basis = \<lparr>family = ''Monomial'', n_basis = 2, dim_domain = 1, dim_codomain = 1, domain_range = [(0, 1)]\<rparr>,
        coefficients = \<lparr>ncols = 2, rows = [[Fin 1, NaN]]\<rparr>,
        extrapolation = None, dataset_name = None, argument_names = None,
        coordinate_names = None, sample_names = None\<rparr>
      \<lparr>family = ''Monomial'', n_basis = 2, dim_domain = 1, dim_codomain = 1, domain_range = [(0, 1)]\<rparr> =
     Inr \<lparr>basis = \<lparr>family = ''Monomial'', n_basis = 2, dim_domain = 1, dim_codomain = 1, domain_range = [(0, 1)]\<rparr>,
        coefficients = \<lparr>ncols = 2, rows = [[Fin 1, NaN]]\<rparr>,
        extrapolation = None, dataset_name = None, argument_names = None,
        coordinate_names = None, sample_names = None\<rparr>
   \<and> \<not> equals (\<lambda>a b. True)
      \<lparr>basis = \<lparr>family = ''Monomial'', n_basis = 2, dim_domain = 1, dim_codomain = 1, domain_range = [(0, 1)]\<rparr>,
        coefficients = \<lparr>ncols = 2, rows = [[Fin 1, NaN]]\<rparr>,
        extrapolation = None, dataset_name = None, argument_names = None,
        coordinate_names = None, sample_names = None\<rparr>
      \<lparr>basis = \<lparr>family = ''Monomial'', n_basis = 2, dim_domain = 1, dim_codomain = 1, domain_range = [(0, 1)]\<rparr>,
        coefficients = \<lparr>ncols = 2, rows = [[Fin 1, NaN]]\<rparr>,
        extrapolation = None, dataset_name = None, argument_names = None,
        coordinate_names = None, sample_names = None\<rparr>"
  by (simp add: to_basis_def copy_def FDataBasis_init_def FData_init_def int_to_real_def
      no_kwargs_def names_ok_def or_self_def equals_def array_equal_def)

text \<open>
  Claim C8, amended. \<open>to_basis\<close> with a basis equal to the instance's returns an
  instance with the same basis and the same coefficient matrix (the fast path);
  \<open>equals\<close> holds between it and the original exactly when the inherited comparison
  accepts them and no coefficient is NaN.
\<close>

theorem to_basis_same_basis:
  assumes "is_instance self" and "b = basis self"
  shows "\<exists>fd. to_basis self b = Inr fd
     \<and> basis fd = basis self \<and> coefficients fd = coefficients self
     \<and> equals super_equals fd self =
         (super_equals fd self
          \<and> list_all (list_all (\<lambda>c. \<not> np_isnan c)) (rows (coefficients self)))"
proof -
  have "to_basis self b = Inr self"
    using copy_instance [OF assms(1)] assms(2) by (simp add: to_basis_def)
  moreover have "equals super_equals self self =
      (super_equals self self
       \<and> list_all (list_all (\<lambda>c. \<not> np_isnan c)) (rows (coefficients self)))"
    by (simp add: equals_def array_equal_refl)
  ultimately show ?thesis by simp
qed

theorem to_basis_same_basis_witness:
  "to_basis
      \<lparr>basis = \<lparr>family = ''Monomial'', n_basis = 2, dim_domain = 1, dim_codomain = 1, domain_range = [(0, 1)]\<rparr>,
        coefficients = \<lparr>ncols = 2, rows = [[Fin 1, Fin 2]]\<rparr>,
        extrapolation = None, dataset_name = None, argument_names = None,
        coordinate_names = None, sample_names = None\<rparr>
      \<lparr>family = ''Monomial'', n_basis = 2, dim_domain = 1, dim_codomain = 1, domain_range = [(0, 1)]\<rparr> =
     Inr \<lparr>basis = \<lparr>family = ''Monomial'', n_basis = 2, dim_domain = 1, dim_codomain = 1, domain_range = [(0, 1)]\<rparr>,
        coefficients = \<lparr>ncols = 2, rows = [[Fin 1, Fin 2]]\<rparr>,
        extrapolation = None, dataset_name = None, argument_names = None,
        coordinate_names = None, sample_names = None\<rparr>
   \<and> equals (\<lambda>a b. True)
      \<lparr>basis = \<lparr>family = ''Monomial'', n_basis = 2, dim_domain = 1, dim_codomain = 1, domain_range = [(0, 1)]\<rparr>,
        coefficients = \<lparr>ncols = 2, rows = [[Fin 1, Fin 2]]\<rparr>,
        extrapolation = None, dataset_name = None, argument_names = None,
        coordinate_names = None, sample_names = None\<rparr>
      \<lparr>basis = \<lparr>family = ''Monomial'', n_basis = 2, dim_domain = 1, dim_codomain = 1, domain_range = [(0, 1)]\<rparr>,
        coefficients = \<lparr>ncols = 2, rows = [[Fin 1, Fin 2]]\<rparr>,
        extrapolation = None, dataset_name = None, argument_names = None,
        coordinate_names = None, sample_names = None\<rparr>"
  using to_basis_same_basis [of
      "\<lparr>basis = \<lparr>family = ''Monomial'', n_basis = 2, dim_domain = 1, dim_codomain = 1, domain_range = [(0, 1)]\<rparr>,
        coefficients = \<lparr>ncols = 2, rows = [[Fin 1, Fin 2]]\<rparr>,
        extrapolation = None, dataset_name = None, argument_names = None,
        coordinate_names = None, sample_names = None\<rparr>"
      "\<lparr>family = ''Monomial'', n_basis = 2, dim_domain = 1, dim_codomain = 1, domain_range = [(0, 1)]\<rparr>" "\<lambda>a b. True"]
  by (simp add: is_instance_def n_samples_def names_ok_def to_basis_def copy_def
      FDataBasis_init_def FData_init_def int_to_real_def no_kwargs_def or_self_def
      equals_def array_equal_def)

subsection \<open>Fitting and classification\<close>

text \<open>
  The claim C1 as stated fails in two ways. With \<open>multivariate_metric=True\<close> as well, the
  \<open>multivariate_metric\<close> branch is taken: the index is constructed with the estimator's
  own metric and fitted on the flattened data, and no training data is retained. In the
  \<open>precompute_metric\<close> branch the fit retains a copy of the training data and fits the
  index on zeros; no distance matrix of the training data (here \<open>[[0, 2], [2, 0]]\<close>) is
  computed or stored.
\<close>

theorem fit_precompute_metric_counterexample:
  "fit (\<lambda>f X. f) (\<lambda>a b. np_sum (map2 (\<lambda>x y. np_mul (np_sub x y) (np_sub x y))
          (concat (data_rows a)) (concat (data_rows b))))
      (\<lparr>metric = L2, precompute_metric = True, multivariate_metric = True,
          estimator_attr = None, grid_points_attr = None, shape_attr = None,
          fit_X_attr = None\<rparr> :: nat list neighbors_base)
      (FGrid \<lparr>grid_points = [[0, 1]], shape_tail = [2, 1],
         data_rows = [[Fin 0, Fin 0], [Fin 1, Fin 1]]\<rparr>) (Some [0, 1]) =
     Inr \<lparr>metric = L2, precompute_metric = True, multivariate_metric = True,
          estimator_attr = Some \<lparr>sk_metric = SkGiven L2,
            sk_fit_X = NDArray [[Fin 0, Fin 0], [Fin 1, Fin 1]], sk_fit_y = Some [0, 1]\<rparr>, grid_points_attr = Some [[0, 1]], shape_attr = Some [2, 1],
          fit_X_attr = None\<rparr>
   \<and> fit (\<lambda>f X. f) (\<lambda>a b. np_sum (map2 (\<lambda>x y. np_mul (np_sub x y) (np_sub x y))
          (concat (data_rows a)) (concat (data_rows b))))
      (\<lparr>metric = L2, precompute_metric = True, multivariate_metric = False,
          estimator_attr = None, grid_points_attr = None, shape_attr = None,
          fit_X_attr = None\<rparr> :: nat list neighbors_base)
      (FGrid \<lparr>grid_points = [[0, 1]], shape_tail = [2, 1],
         data_rows = [[Fin 0, Fin 0], [Fin 1, Fin 1]]\<rparr>) (Some [0, 1]) =
     Inr \<lparr>metric = L2, precompute_metric = True, multivariate_metric = False,
          estimator_attr = Some \<lparr>sk_metric = SkGiven Precomputed,
            sk_fit_X = NDArray [[Fin 0, Fin 0], [Fin 0, Fin 0]], sk_fit_y = Some [0, 1]\<rparr>, grid_points_attr = Some [[0, 1]], shape_attr = Some [2, 1],
          fit_X_attr = Some \<lparr>grid_points = [[0, 1]], shape_tail = [2, 1],
         data_rows = [[Fin 0, Fin 0], [Fin 1, Fin 1]]\<rparr>\<rparr>
   \<and> pairwise_metric (\<lambda>a b. np_sum (map2 (\<lambda>x y. np_mul (np_sub x y) (np_sub x y))
          (concat (data_rows a)) (concat (data_rows b))))
      \<lparr>grid_points = [[0, 1]], shape_tail = [2, 1],
         data_rows = [[Fin 0, Fin 0], [Fin 1, Fin 1]]\<rparr>
      \<lparr>grid_points = [[0, 1]], shape_tail = [2, 1],
         data_rows = [[Fin 0, Fin 0], [Fin 1, Fin 1]]\<rparr> = [[Fin 0, Fin 2], [Fin 2, Fin 0]]"
  by (simp add: fit_def fit_metric_def to_multivariate_def zeros_def pairwise_metric_def
      single_sample_def np_sum_def np_sub_def numeral_2_eq_2)

text \<open>
  Claim C1, amended. With \<open>precompute_metric=True\<close>, \<open>multivariate_metric=False\<close> and a
  metric other than the \<open>precomputed\<close> tag, \<open>fit\<close> on functional data fits the metric,
  retains a copy of the training data, and fits the external index in \<open>precomputed\<close>
  mode over the all-zero matrix of shape \<open>(n_samples, n_samples)\<close>; classification
  \<open>predict\<close> on functional data then gives the index the pairwise distances of the
  query samples to the retained training data, under \<open>l2_distance\<close> or the given metric.
\<close>

theorem fit_precompute_metric:
  assumes "metric self \<noteq> Precomputed"
    and "precompute_metric self"
    and "\<not> multivariate_metric self"
  shows "\<exists>st est m.
       fit fit_step l2_distance self (FGrid g) y = Inr st
     \<and> estimator_attr st = Some est
     \<and> sk_metric est = SkGiven Precomputed
     \<and> sk_fit_X est = NDArray (zeros (length (data_rows g)) (length (data_rows g)))
     \<and> sk_fit_y est = y
     \<and> fit_X_attr st = Some g
     \<and> metric st = fit_metric fit_step (metric self) g
     \<and> resolve_metric l2_distance (metric st) = Inr m
     \<and> predict l2_distance sk_predict st (FGrid q) =
         Inr (sk_predict est (Some (NDArray (pairwise_metric m q g))))"
proof (cases "metric self")
  case Precomputed
  with assms(1) show ?thesis by simp
next
  case L2
  then show ?thesis
    using assms(2,3)
    by (simp add: fit_def fit_metric_def predict_def resolve_metric_def Let_def)
next
  case (Callable f)
  then show ?thesis
    using assms(2,3)
    by (simp add: fit_def fit_metric_def predict_def resolve_metric_def Let_def)
qed

theorem fit_precompute_metric_witness:
  "fit (\<lambda>f X. f) (\<lambda>a b. np_sum (map2 (\<lambda>x y. np_mul (np_sub x y) (np_sub x y))
          (concat (data_rows a)) (concat (data_rows b))))
      (\<lparr>metric = L2, precompute_metric = True, multivariate_metric = False,
          estimator_attr = None, grid_points_attr = None, shape_attr = None,
          fit_X_attr = None\<rparr> :: nat list neighbors_base)
      (FGrid \<lparr>grid_points = [[0, 1]], shape_tail = [2, 1],
         data_rows = [[Fin 0, Fin 0], [Fin 1, Fin 1]]\<rparr>) (Some [0, 1]) =
     Inr \<lparr>metric = L2, precompute_metric = True, multivariate_metric = False,
          estimator_attr = Some \<lparr>sk_metric = SkGiven Precomputed,
            sk_fit_X = NDArray [[Fin 0, Fin 0], [Fin 0, Fin 0]], sk_fit_y = Some [0, 1]\<rparr>, grid_points_attr = Some [[0, 1]], shape_attr = Some [2, 1],
          fit_X_attr = Some \<lparr>grid_points = [[0, 1]], shape_tail = [2, 1],
         data_rows = [[Fin 0, Fin 0], [Fin 1, Fin 1]]\<rparr>\<rparr>
   \<and> predict (\<lambda>a b. np_sum (map2 (\<lambda>x y. np_mul (np_sub x y) (np_sub x y))
          (concat (data_rows a)) (concat (data_rows b))))
      (\<lambda>est X. X)
      (\<lparr>metric = L2, precompute_metric = True, multivariate_metric = False,
          estimator_attr = Some \<lparr>sk_metric = SkGiven Precomputed,
            sk_fit_X = NDArray [[Fin 0, Fin 0], [Fin 0, Fin 0]], sk_fit_y = Some [0, 1]\<rparr>, grid_points_attr = Some [[0, 1]], shape_attr = Some [2, 1],
          fit_X_attr = Some \<lparr>grid_points = [[0, 1]], shape_tail = [2, 1],
         data_rows = [[Fin 0, Fin 0], [Fin 1, Fin 1]]\<rparr>\<rparr> :: nat list neighbors_base)
      (FGrid \<lparr>grid_points = [[0, 1]], shape_tail = [2, 1], data_rows = [[Fin 1, Fin 3]]\<rparr>) = Inr (Some (NDArray [[Fin 10, Fin 4]]))"
  using fit_precompute_metric [of
      "\<lparr>metric = L2, precompute_metric = True, multivariate_metric = False,
          estimator_attr = None, grid_points_attr = None, shape_attr = None,
          fit_X_attr = None\<rparr> :: nat list neighbors_base"
      "\<lambda>f X. f"
      "(\<lambda>a b. np_sum (map2 (\<lambda>x y. np_mul (np_sub x y) (np_sub x y))
          (concat (data_rows a)) (concat (data_rows b))))"
      "\<lparr>grid_points = [[0, 1]], shape_tail = [2, 1],
         data_rows = [[Fin 0, Fin 0], [Fin 1, Fin 1]]\<rparr>"
      "Some [0, 1]"
      "\<lambda>est X. X"
      "\<lparr>grid_points = [[0, 1]], shape_tail = [2, 1], data_rows = [[Fin 1, Fin 3]]\<rparr>"]
  by (simp add: fit_def fit_metric_def predict_def resolve_metric_def zeros_def
      pairwise_metric_def single_sample_def np_sum_def np_sub_def numeral_2_eq_2)

subsection \<open>Functional score\<close>

text \<open>
  The claim C5 as stated fails when the deviation integral is zero, as for a single
  response: with predictions equal to the targets the score is \<open>1 - 0 / 0\<close>, which is
  NaN and not 1.
\<close>

theorem functional_score_zero_deviation_counterexample:
  "functional_score grid_ops simpson (\<lambda>X. Inr X)
      \<lparr>grid_points = [[0, 1 / 2, 1]], shape_tail = [3, 1],
         data_rows = [[Fin 1, Fin 2, Fin 3]]\<rparr>
      \<lparr>grid_points = [[0, 1 / 2, 1]], shape_tail = [3, 1],
         data_rows = [[Fin 1, Fin 2, Fin 3]]\<rparr> None = Inr NaN"
  by (simp add: functional_score_def grid_ops_def squared_sum_def sum_axis0_def np_sub_def)

lemma map_const_upt: "map (\<lambda>j. c) [0..<m] = replicate m c"
  by (induction m) (simp_all add: replicate_append_same)

lemma np_sum_Cons: "np_sum (x # xs) = np_add x (np_sum xs)"
  by (simp add: np_sum_def)

lemma np_sum_zeros: "np_sum (map (\<lambda>i. Fin 0) xs) = Fin 0"
  by (induction xs) (simp_all add: np_sum_def)

lemma np_sum_finite:
  "\<forall>x\<in>set w. \<exists>a. x = Fin a \<Longrightarrow> \<exists>s. np_sum w = Fin s"
  by (induction w) (auto simp: np_sum_def)

lemma sum_axis0_columns:
  assumes "\<forall>r\<in>set data. length r = m"
  shows "sum_axis0 m data = map (\<lambda>j. np_sum (map (\<lambda>r. r ! j) data)) [0..<m]"
  using assms
proof (induction data)
  case Nil
  then show ?case
    by (simp add: sum_axis0_def np_sum_def map_const_upt)
next
  case (Cons r data)
  then have ih: "sum_axis0 m data = map (\<lambda>j. np_sum (map (\<lambda>r. r ! j) data)) [0..<m]"
    and len: "length r = m"
    by simp_all
  have "sum_axis0 m (r # data) = map2 np_add r (sum_axis0 m data)"
    by (simp add: sum_axis0_def)
  also have "\<dots> = map (\<lambda>j. np_sum (map (\<lambda>r. r ! j) (r # data))) [0..<m]"
    using len by (intro nth_equalityI) (simp_all add: ih np_sum_Cons)
  finally show ?case .
qed

lemma rows_by_index:
  "map f data = map (\<lambda>i. f (data ! i)) [0..<length data]"
  by (intro nth_equalityI) simp_all

lemma weighted_rows_by_index:
  assumes "length w = length data"
  shows "map2 f data w = map (\<lambda>i. f (data ! i) (w ! i)) [0..<length data]"
  using assms by (intro nth_equalityI) simp_all

lemma squared_sum_explicit:
  assumes "\<forall>r\<in>set data. length r = m"
    and "case sample_weight of None \<Rightarrow> True | Some w \<Rightarrow> length w = length data"
  shows "squared_sum m data (map_option (\<lambda>w. map (\<lambda>x. np_div x (np_sum w)) w) sample_weight) =
     map (\<lambda>j. np_sum (map (\<lambda>i.
            case sample_weight of
              None \<Rightarrow> np_mul (data ! i ! j) (data ! i ! j)
            | Some w \<Rightarrow> np_mul (np_mul (data ! i ! j) (data ! i ! j))
                          (np_div (w ! i) (np_sum w)))
          [0..<length data]))
       [0..<m]"
proof (cases sample_weight)
  case None
  let ?rows = "map (map (\<lambda>x. np_mul x x)) data"
  have len: "\<forall>r\<in>set ?rows. length r = m"
    using assms(1) by simp
  have "squared_sum m data None = sum_axis0 m ?rows"
    by (simp add: squared_sum_def)
  also have "\<dots> = map (\<lambda>j. np_sum (map (\<lambda>r. r ! j) ?rows)) [0..<m]"
    by (rule sum_axis0_columns [OF len])
  also have "\<dots> = map (\<lambda>j. np_sum (map (\<lambda>i. np_mul (data ! i ! j) (data ! i ! j))
                        [0..<length data])) [0..<m]"
  proof (rule map_cong [OF refl])
    fix j assume "j \<in> set [0..<m]"
    then have j: "j < m" by simp
    have "map (\<lambda>r. r ! j) ?rows = map (\<lambda>i. (?rows ! i) ! j) [0..<length ?rows]"
      by (rule rows_by_index)
    also have "\<dots> = map (\<lambda>i. np_mul (data ! i ! j) (data ! i ! j)) [0..<length data]"
      using assms(1) j by (intro nth_equalityI) simp_all
    finally show "np_sum (map (\<lambda>r. r ! j) ?rows) =
        np_sum (map (\<lambda>i. np_mul (data ! i ! j) (data ! i ! j)) [0..<length data])"
      by simp
  qed
  finally show ?thesis
    using None by simp
next
  case (Some w)
  with assms(2) have lw: "length w = length data" by simp
  let ?w = "map (\<lambda>x. np_div x (np_sum w)) w"
  let ?rows = "map2 (\<lambda>row wi. map (\<lambda>x. np_mul x wi) row) (map (map (\<lambda>x. np_mul x x)) data) ?w"
  have rows_eq: "?rows =
      map (\<lambda>i. map (\<lambda>x. np_mul (np_mul x x) (np_div (w ! i) (np_sum w))) (data ! i))
        [0..<length data]"
    using lw by (intro nth_equalityI) simp_all
  have len: "\<forall>r\<in>set ?rows. length r = m"
    using assms(1) by (auto simp: rows_eq)
  have "squared_sum m data (Some ?w) = sum_axis0 m ?rows"
    by (simp add: squared_sum_def)
  also have "\<dots> = map (\<lambda>j. np_sum (map (\<lambda>r. r ! j) ?rows)) [0..<m]"
    by (rule sum_axis0_columns [OF len])
  also have "\<dots> = map (\<lambda>j. np_sum (map (\<lambda>i.
        np_mul (np_mul (data ! i ! j) (data ! i ! j)) (np_div (w ! i) (np_sum w)))
        [0..<length data])) [0..<m]"
  proof (rule map_cong [OF refl])
    fix j assume "j \<in> set [0..<m]"
    then have j: "j < m" by simp
    have "map (\<lambda>r. r ! j) ?rows =
        map (\<lambda>i. np_mul (np_mul (data ! i ! j) (data ! i ! j)) (np_div (w ! i) (np_sum w)))
          [0..<length data]"
      unfolding rows_eq using assms(1) j by (intro nth_equalityI) simp_all
    then show "np_sum (map (\<lambda>r. r ! j) ?rows) =
        np_sum (map (\<lambda>i. np_mul (np_mul (data ! i ! j) (data ! i ! j))
                          (np_div (w ! i) (np_sum w))) [0..<length data])"
      by simp
  qed
  finally show ?thesis
    using Some by simp
qed

lemma grid_residual_zero:
  assumes "\<forall>r\<in>set (data_rows g). \<forall>x\<in>set r. \<exists>a. x = Fin a"
  shows "\<forall>r\<in>set (fd_data_matrix grid_ops (fd_sub grid_ops g g)). \<forall>x\<in>set r. x = Fin 0"
proof -
  let ?rows = "data_rows g"
  have same: "(if length ?rows = 1 then replicate (length ?rows) (hd ?rows) else ?rows) = ?rows"
    by (cases ?rows) auto
  have "fd_data_matrix grid_ops (fd_sub grid_ops g g) = map2 (map2 np_sub) ?rows ?rows"
    using same by (simp add: grid_ops_def)
  also have "\<dots> = map (\<lambda>r. map (\<lambda>x. np_sub x x) r) ?rows"
    using map2_same [of "map2 np_sub" ?rows "\<lambda>r. r"]
      map2_same [of np_sub _ "\<lambda>x. x"]
    by simp
  finally have eq: "fd_data_matrix grid_ops (fd_sub grid_ops g g) =
      map (\<lambda>r. map (\<lambda>x. np_sub x x) r) ?rows" .
  have "np_sub x x = Fin 0" if "\<exists>a. x = Fin a" for x
    using that by (auto simp: np_sub_def)
  then show ?thesis
    unfolding eq using assms by auto
qed

text \<open>
  Claim C5, amended. The functional score fails with the invalid-argument error when the
  response's domain or codomain dimension is not 1. Otherwise, for a prediction, one
  weight per sample if there are weights, and residual and deviation matrices with one
  row per sample and one column per grid point, the score is \<open>1 - int_u / int_v\<close>:
  \<open>int_u\<close> is the quadrature of the function whose value at grid point \<open>j\<close> is the sum
  over the samples \<open>i\<close> of the squared residual at \<open>j\<close>, times the weight of \<open>i\<close> divided by
  the sum of the weights when there are weights; \<open>int_v\<close> is the same for the deviations
  from the mean. The score is exactly 1 when \<open>int_u\<close> is zero and \<open>int_v\<close> is finite and
  not zero, and NaN when both are zero. \<open>int_u\<close> is zero when the residual is zero at
  every grid point, the weights (if any) are finite with a sum that is not zero, and the
  quadrature of the zero function is zero; for discretised responses with finite values,
  predictions equal to the targets have a residual that is zero at every grid point.
\<close>

theorem functional_score_formula:
  "(let u0 = fd_sub ops y pred;
        v0 = fd_sub ops y (fd_mean ops y);
        u = (if fd_is_grid ops u0 then u0 else fd_to_grid ops u0);
        v = (if fd_is_grid ops u0 then v0 else fd_to_grid ops v0);
        U = fd_data_matrix ops u;
        V = fd_data_matrix ops v;
        gu = fd_grid_points ops u;
        gv = fd_grid_points ops v;
        n = fd_len ops y;
        weighted_square = (\<lambda>x i.
           case sample_weight of
             None \<Rightarrow> np_mul x x
           | Some w \<Rightarrow> np_mul (np_mul x x) (np_div (w ! i) (np_sum w)));
        int_u = simps (map (\<lambda>j. np_sum (map (\<lambda>i. weighted_square (U ! i ! j) i) [0..<n]))
                         [0..<length gu]) gu;
        int_v = simps (map (\<lambda>j. np_sum (map (\<lambda>i. weighted_square (V ! i ! j) i) [0..<n]))
                         [0..<length gv]) gv;
        valid = (fd_dim_codomain ops y = 1 \<and> fd_dim_domain ops y = 1
                 \<and> predict_fn X = Inr pred
                 \<and> (case sample_weight of None \<Rightarrow> True | Some w \<Rightarrow> length w = n)
                 \<and> length U = n \<and> (\<forall>r\<in>set U. length r = length gu)
                 \<and> length V = n \<and> (\<forall>r\<in>set V. length r = length gv))
    in
      (fd_dim_codomain ops y \<noteq> 1 \<or> fd_dim_domain ops y \<noteq> 1 \<longrightarrow>
         functional_score ops simps predict_fn X y sample_weight =
           Inl (ValueError NotUnivariate))
    \<and> (valid \<longrightarrow>
         functional_score ops simps predict_fn X y sample_weight =
           Inr (np_sub (Fin 1) (np_div int_u int_v)))
    \<and> (valid \<and> int_u = Fin 0 \<and> int_v = Fin c \<and> c \<noteq> 0 \<longrightarrow>
         functional_score ops simps predict_fn X y sample_weight = Inr (Fin 1))
    \<and> (valid \<and> int_u = Fin 0 \<and> int_v = Fin 0 \<longrightarrow>
         functional_score ops simps predict_fn X y sample_weight = Inr NaN)
    \<and> (valid \<and> (\<forall>r\<in>set U. \<forall>x\<in>set r. x = Fin 0)
         \<and> (case sample_weight of
               None \<Rightarrow> True
             | Some w \<Rightarrow> (\<forall>x\<in>set w. \<exists>a. x = Fin a) \<and> np_sum w \<noteq> Fin 0)
         \<and> simps (replicate (length gu) (Fin 0)) gu = Fin 0 \<longrightarrow>
         int_u = Fin 0)
    \<and> ((\<forall>r\<in>set (data_rows g). \<forall>x\<in>set r. \<exists>a. x = Fin a) \<longrightarrow>
         (\<forall>r\<in>set (fd_data_matrix grid_ops (fd_sub grid_ops g g)). \<forall>x\<in>set r. x = Fin 0)))"
proof -
  define u0 where "u0 = fd_sub ops y pred"
  define v0 where "v0 = fd_sub ops y (fd_mean ops y)"
  define u where "u = (if fd_is_grid ops u0 then u0 else fd_to_grid ops u0)"
  define v where "v = (if fd_is_grid ops u0 then v0 else fd_to_grid ops v0)"
  define U where "U = fd_data_matrix ops u"
  define V where "V = fd_data_matrix ops v"
  define gu where "gu = fd_grid_points ops u"
  define gv where "gv = fd_grid_points ops v"
  define n where "n = fd_len ops y"
  define weighted_square where "weighted_square = (\<lambda>x i.
      case sample_weight of
        None \<Rightarrow> np_mul x x
      | Some w \<Rightarrow> np_mul (np_mul x x) (np_div (w ! i) (np_sum w)))"
  define int_u where
    "int_u = simps (map (\<lambda>j. np_sum (map (\<lambda>i. weighted_square (U ! i ! j) i) [0..<n]))
                      [0..<length gu]) gu"
  define int_v where
    "int_v = simps (map (\<lambda>j. np_sum (map (\<lambda>i. weighted_square (V ! i ! j) i) [0..<n]))
                      [0..<length gv]) gv"
  define valid where
    "valid = (fd_dim_codomain ops y = 1 \<and> fd_dim_domain ops y = 1
              \<and> predict_fn X = Inr pred
              \<and> (case sample_weight of None \<Rightarrow> True | Some w \<Rightarrow> length w = n)
              \<and> length U = n \<and> (\<forall>r\<in>set U. length r = length gu)
              \<and> length V = n \<and> (\<forall>r\<in>set V. length r = length gv))"
  note defs = u0_def v0_def u_def v_def U_def V_def gu_def gv_def n_def weighted_square_def
    int_u_def int_v_def valid_def
  have dims: "functional_score ops simps predict_fn X y sample_weight =
      Inl (ValueError NotUnivariate)"
    if "fd_dim_codomain ops y \<noteq> 1 \<or> fd_dim_domain ops y \<noteq> 1"
    using that by (auto simp: functional_score_def)
  have formula: "functional_score ops simps predict_fn X y sample_weight =
      Inr (np_sub (Fin 1) (np_div int_u int_v))"
    if valid
  proof -
    let ?w = "map_option (\<lambda>w. map (\<lambda>x. np_div x (np_sum w)) w) sample_weight"
    from that have wl: "case sample_weight of None \<Rightarrow> True | Some w \<Rightarrow> length w = n"
      and lenU: "length U = n" "\<forall>r\<in>set U. length r = length gu"
      and lenV: "length V = n" "\<forall>r\<in>set V. length r = length gv"
      and ok: "fd_dim_codomain ops y = 1" "fd_dim_domain ops y = 1" "predict_fn X = Inr pred"
      by (simp_all add: valid_def)
    have wU: "case sample_weight of None \<Rightarrow> True | Some w \<Rightarrow> length w = length U"
      using wl lenU(1) by (cases sample_weight) simp_all
    have wV: "case sample_weight of None \<Rightarrow> True | Some w \<Rightarrow> length w = length V"
      using wl lenV(1) by (cases sample_weight) simp_all
    have su: "simps (squared_sum (length gu) U ?w) gu = int_u"
      unfolding squared_sum_explicit [OF lenU(2) wU] int_u_def weighted_square_def lenU(1)
      by (cases sample_weight) simp_all
    have sv: "simps (squared_sum (length gv) V ?w) gv = int_v"
      unfolding squared_sum_explicit [OF lenV(2) wV] int_v_def weighted_square_def lenV(1)
      by (cases sample_weight) simp_all
    have not_bad: "\<not> (case sample_weight of None \<Rightarrow> False | Some w \<Rightarrow> length w \<noteq> fd_len ops y)"
      using wl by (cases sample_weight) (simp_all add: n_def)
    have "functional_score ops simps predict_fn X y sample_weight =
        Inr (np_sub (Fin 1) (np_div (simps (squared_sum (length gu) U ?w) gu)
                                    (simps (squared_sum (length gv) V ?w) gv)))"
      using ok not_bad
      by (simp add: functional_score_def Let_def u0_def v0_def u_def v_def U_def V_def
          gu_def gv_def)
    then show ?thesis by (simp add: su sv)
  qed
  have one: "functional_score ops simps predict_fn X y sample_weight = Inr (Fin 1)"
    if "valid \<and> int_u = Fin 0 \<and> int_v = Fin c \<and> c \<noteq> 0"
    using that formula by (simp add: np_sub_def)
  have nan: "functional_score ops simps predict_fn X y sample_weight = Inr NaN"
    if "valid \<and> int_u = Fin 0 \<and> int_v = Fin 0"
    using that formula by (simp add: np_sub_def)
  have zero: "int_u = Fin 0"
    if h: "valid \<and> (\<forall>r\<in>set U. \<forall>x\<in>set r. x = Fin 0)
         \<and> (case sample_weight of
               None \<Rightarrow> True
             | Some w \<Rightarrow> (\<forall>x\<in>set w. \<exists>a. x = Fin a) \<and> np_sum w \<noteq> Fin 0)
         \<and> simps (replicate (length gu) (Fin 0)) gu = Fin 0"
  proof -
    from h have lenU: "length U = n" "\<forall>r\<in>set U. length r = length gu"
      and wl: "case sample_weight of None \<Rightarrow> True | Some w \<Rightarrow> length w = n"
      by (simp_all add: valid_def)
    have entry: "U ! i ! j = Fin 0" if "i < n" "j < length gu" for i j
    proof -
      from that(1) lenU(1) have r: "U ! i \<in> set U" by simp
      with lenU(2) that(2) have "U ! i ! j \<in> set (U ! i)" by simp
      with h r show ?thesis by blast
    qed
    have ws: "weighted_square (Fin 0) i = Fin 0" if "i < n" for i
    proof (cases sample_weight)
      case None
      then show ?thesis by (simp add: weighted_square_def)
    next
      case (Some w)
      with h have fin: "\<forall>x\<in>set w. \<exists>a. x = Fin a" and nz: "np_sum w \<noteq> Fin 0"
        by simp_all
      from np_sum_finite [OF fin] obtain s where s: "np_sum w = Fin s" by blast
      with nz have "s \<noteq> 0" by simp
      from Some wl that have "w ! i \<in> set w" by simp
      with fin obtain a where "w ! i = Fin a" by blast
      with s \<open>s \<noteq> 0\<close> Some show ?thesis
        by (simp add: weighted_square_def)
    qed
    have "map (\<lambda>j. np_sum (map (\<lambda>i. weighted_square (U ! i ! j) i) [0..<n])) [0..<length gu] =
        map (\<lambda>j. Fin 0) [0..<length gu]"
    proof (rule map_cong [OF refl])
      fix j assume "j \<in> set [0..<length gu]"
      then have j: "j < length gu" by simp
      have "map (\<lambda>i. weighted_square (U ! i ! j) i) [0..<n] = map (\<lambda>i. Fin 0) [0..<n]"
        using entry [OF _ j] ws by (intro map_cong [OF refl]) simp
      from arg_cong [OF this, of np_sum]
      show "np_sum (map (\<lambda>i. weighted_square (U ! i ! j) i) [0..<n]) = Fin 0"
        by (simp only: np_sum_zeros)
    qed
    then show ?thesis
      using h by (simp add: int_u_def map_const_upt)
  qed
  have grid: "\<forall>r\<in>set (fd_data_matrix grid_ops (fd_sub grid_ops g g)). \<forall>x\<in>set r. x = Fin 0"
    if "\<forall>r\<in>set (data_rows g). \<forall>x\<in>set r. \<exists>a. x = Fin a"
    by (rule grid_residual_zero [OF that])
  have "(fd_dim_codomain ops y \<noteq> 1 \<or> fd_dim_domain ops y \<noteq> 1 \<longrightarrow>
         functional_score ops simps predict_fn X y sample_weight =
           Inl (ValueError NotUnivariate))
    \<and> (valid \<longrightarrow>
         functional_score ops simps predict_fn X y sample_weight =
           Inr (np_sub (Fin 1) (np_div int_u int_v)))
    \<and> (valid \<and> int_u = Fin 0 \<and> int_v = Fin c \<and> c \<noteq> 0 \<longrightarrow>
         functional_score ops simps predict_fn X y sample_weight = Inr (Fin 1))
    \<and> (valid \<and> int_u = Fin 0 \<and> int_v = Fin 0 \<longrightarrow>
         functional_score ops simps predict_fn X y sample_weight = Inr NaN)
    \<and> (valid \<and> (\<forall>r\<in>set U. \<forall>x\<in>set r. x = Fin 0)
         \<and> (case sample_weight of
               None \<Rightarrow> True
             | Some w \<Rightarrow> (\<forall>x\<in>set w. \<exists>a. x = Fin a) \<and> np_sum w \<noteq> Fin 0)
         \<and> simps (replicate (length gu) (Fin 0)) gu = Fin 0 \<longrightarrow>
         int_u = Fin 0)
    \<and> ((\<forall>r\<in>set (data_rows g). \<forall>x\<in>set r. \<exists>a. x = Fin a) \<longrightarrow>
         (\<forall>r\<in>set (fd_data_matrix grid_ops (fd_sub grid_ops g g)). \<forall>x\<in>set r. x = Fin 0))"
    using dims formula one nan zero grid by (intro conjI impI)
  then show ?thesis
    unfolding Let_def defs .
qed

theorem functional_score_formula_witness:
  "functional_score grid_ops simpson (\<lambda>X. Inr X)
      \<lparr>grid_points = [[0, 1 / 2, 1]], shape_tail = [3, 1],
         data_rows = [[Fin 1, Fin 2, Fin 3], [Fin 3, Fin 2, Fin 1]]\<rparr>
      \<lparr>grid_points = [[0, 1 / 2, 1]], shape_tail = [3, 1],
         data_rows = [[Fin 1, Fin 2, Fin 3], [Fin 3, Fin 2, Fin 1]]\<rparr> None = Inr (Fin 1)
   \<and> functional_score grid_ops simpson (\<lambda>X. Inr X)
      \<lparr>grid_points = [[0, 1 / 2, 1]], shape_tail = [3, 1],
         data_rows = [[Fin 1, Fin 2, Fin 3], [Fin 3, Fin 2, Fin 1]]\<rparr>
      \<lparr>grid_points = [[0, 1 / 2, 1]], shape_tail = [3, 1],
         data_rows = [[Fin 1, Fin 2, Fin 3], [Fin 3, Fin 2, Fin 1]]\<rparr> (Some [Fin 1, Fin 3]) = Inr (Fin 1)
   \<and> functional_score grid_ops simpson (\<lambda>X. Inr X)
      \<lparr>grid_points = [[0, 1 / 2, 1]], shape_tail = [3, 1],
         data_rows = [[Fin 1, Fin 2, Fin 3]]\<rparr>
      \<lparr>grid_points = [[0, 1 / 2, 1]], shape_tail = [3, 1],
         data_rows = [[Fin 1, Fin 2, Fin 3]]\<rparr> (Some [Fin 2]) = Inr NaN
   \<and> functional_score grid_ops simpson (\<lambda>X. Inr X)
      \<lparr>grid_points = [[0, 1 / 2, 1], [0, 1]], shape_tail = [3, 2, 1],
         data_rows = [[Fin 1, Fin 2, Fin 3, Fin 1, Fin 2, Fin 3]]\<rparr>
      \<lparr>grid_points = [[0, 1 / 2, 1], [0, 1]], shape_tail = [3, 2, 1],
         data_rows = [[Fin 1, Fin 2, Fin 3, Fin 1, Fin 2, Fin 3]]\<rparr> None = Inl (ValueError NotUnivariate)"
  using
    functional_score_formula [where ops = grid_ops
        and y = "\<lparr>grid_points = [[0, 1 / 2, 1]], shape_tail = [3, 1],
         data_rows = [[Fin 1, Fin 2, Fin 3], [Fin 3, Fin 2, Fin 1]]\<rparr>"
        and pred = "\<lparr>grid_points = [[0, 1 / 2, 1]], shape_tail = [3, 1],
         data_rows = [[Fin 1, Fin 2, Fin 3], [Fin 3, Fin 2, Fin 1]]\<rparr>"
        and g = "\<lparr>grid_points = [[0, 1 / 2, 1]], shape_tail = [3, 1],
         data_rows = [[Fin 1, Fin 2, Fin 3], [Fin 3, Fin 2, Fin 1]]\<rparr>"
        and sample_weight = "None" and simps = simpson and predict_fn = "\<lambda>X. Inr X"
        and X = "\<lparr>grid_points = [[0, 1 / 2, 1]], shape_tail = [3, 1],
         data_rows = [[Fin 1, Fin 2, Fin 3], [Fin 3, Fin 2, Fin 1]]\<rparr>" and c = "2 / 3"]
    functional_score_formula [where ops = grid_ops
        and y = "\<lparr>grid_points = [[0, 1 / 2, 1]], shape_tail = [3, 1],
         data_rows = [[Fin 1, Fin 2, Fin 3], [Fin 3, Fin 2, Fin 1]]\<rparr>"
        and pred = "\<lparr>grid_points = [[0, 1 / 2, 1]], shape_tail = [3, 1],
         data_rows = [[Fin 1, Fin 2, Fin 3], [Fin 3, Fin 2, Fin 1]]\<rparr>"
        and g = "\<lparr>grid_points = [[0, 1 / 2, 1]], shape_tail = [3, 1],
         data_rows = [[Fin 1, Fin 2, Fin 3], [Fin 3, Fin 2, Fin 1]]\<rparr>"
        and sample_weight = "Some [Fin 1, Fin 3]" and simps = simpson and predict_fn = "\<lambda>X. Inr X"
        and X = "\<lparr>grid_points = [[0, 1 / 2, 1]], shape_tail = [3, 1],
         data_rows = [[Fin 1, Fin 2, Fin 3], [Fin 3, Fin 2, Fin 1]]\<rparr>" and c = "1 / 3"]
    functional_score_formula [where ops = grid_ops
        and y = "\<lparr>grid_points = [[0, 1 / 2, 1]], shape_tail = [3, 1],
         data_rows = [[Fin 1, Fin 2, Fin 3]]\<rparr>"
        and pred = "\<lparr>grid_points = [[0, 1 / 2, 1]], shape_tail = [3, 1],
         data_rows = [[Fin 1, Fin 2, Fin 3]]\<rparr>"
        and g = "\<lparr>grid_points = [[0, 1 / 2, 1]], shape_tail = [3, 1],
         data_rows = [[Fin 1, Fin 2, Fin 3]]\<rparr>"
        and sample_weight = "Some [Fin 2]" and simps = simpson and predict_fn = "\<lambda>X. Inr X"
        and X = "\<lparr>grid_points = [[0, 1 / 2, 1]], shape_tail = [3, 1],
         data_rows = [[Fin 1, Fin 2, Fin 3]]\<rparr>" and c = "1"]
    functional_score_formula [where ops = grid_ops
        and y = "\<lparr>grid_points = [[0, 1 / 2, 1], [0, 1]], shape_tail = [3, 2, 1],
         data_rows = [[Fin 1, Fin 2, Fin 3, Fin 1, Fin 2, Fin 3]]\<rparr>"
        and pred = "\<lparr>grid_points = [[0, 1 / 2, 1], [0, 1]], shape_tail = [3, 2, 1],
         data_rows = [[Fin 1, Fin 2, Fin 3, Fin 1, Fin 2, Fin 3]]\<rparr>"
        and g = "\<lparr>grid_points = [[0, 1 / 2, 1], [0, 1]], shape_tail = [3, 2, 1],
         data_rows = [[Fin 1, Fin 2, Fin 3, Fin 1, Fin 2, Fin 3]]\<rparr>"
        and sample_weight = "None" and simps = simpson and predict_fn = "\<lambda>X. Inr X"
        and X = "\<lparr>grid_points = [[0, 1 / 2, 1], [0, 1]], shape_tail = [3, 2, 1],
         data_rows = [[Fin 1, Fin 2, Fin 3, Fin 1, Fin 2, Fin 3]]\<rparr>" and c = "1"]
  by (simp add: functional_score_def grid_ops_def squared_sum_def sum_axis0_def np_sub_def
      np_sum_def numeral_2_eq_2 numeral_3_eq_3)

end
